theory Spec2Isabelle
  imports Complex_Main "HOL-Library.Sublist"
begin

section \<open>Conventions of the embedding\<close>

text \<open>
  The Python sources compute with double-precision floats. They are embedded over the
  real numbers: every float operation stands for the exact operation on \<^typ>\<open>real\<close>,
  so rounding, overflow, infinities and NaN are outside the model. Python integers are
  \<^typ>\<open>int\<close>. An exception or a call of \<open>sys.exit\<close> is a value \<open>Inl e\<close> of the result.
\<close>

datatype py_error =
    ZeroDivisionError
  | IndexError
  | KeyError
  | SystemExit

section \<open>loads/response\_spectrum.py\<close>

text \<open>
  The three intermediate coefficients of \<open>china_response_spectrum\<close> (its local variables
  \<open>gamma\<close>, \<open>eta1\<close> and \<open>eta2\<close>), as functions of the damping ratio.
\<close>

definition gamma :: "real \<Rightarrow> real" where
  "gamma zeta = 0.9 + (0.05 - zeta) / (0.3 + 6.0 * zeta)"

definition eta1 :: "real \<Rightarrow> real" where
  "eta1 zeta = max 0.0 (0.02 + (0.05 - zeta) / (4.0 + 32.0 * zeta))"

definition eta2 :: "real \<Rightarrow> real" where
  "eta2 zeta = max 0.55 (1.0 + (0.05 - zeta) / (0.08 + 1.6 * zeta))"

text \<open>
  The value of the local variable \<open>current_alpha_coeff\<close> after the \<open>if\<close>/\<open>elif\<close> chain
  (source lines 35 to 50). Both uses of \<open>**\<close> have a positive base (\<open>0.2\<close>, and \<open>Tg / T\<close>
  in a branch where \<open>0.1 < T \<le> 5 * Tg\<close>), where Python's float power is \<open>powr\<close>.
\<close>

definition branch_alpha_coeff :: "real \<Rightarrow> real \<Rightarrow> real \<Rightarrow> real \<Rightarrow> real" where
  "branch_alpha_coeff T zeta alpha_max Tg =
     (if T < 0 then 0.0
      else if T = 0.0 then 0.45 * alpha_max
      else if T \<le> 0.1 then
        min ((0.45 + 10.0 * (eta2 zeta - 0.45) * T) * alpha_max) (eta2 zeta * alpha_max)
      else if T \<le> Tg then eta2 zeta * alpha_max
      else if T \<le> 5.0 * Tg then ((Tg / T) powr gamma zeta) * eta2 zeta * alpha_max
      else if T \<le> 6.0 then
        (let alpha_at_5Tg_coeff = (0.2 powr gamma zeta) * eta2 zeta
         in (alpha_at_5Tg_coeff - eta1 zeta * (T - 5.0 * Tg)) * alpha_max)
      else
        (let alpha_at_5Tg_coeff = (0.2 powr gamma zeta) * eta2 zeta
         in (alpha_at_5Tg_coeff - eta1 zeta * (6.0 - 5.0 * Tg)) * alpha_max))"

text \<open>
  The value of \<open>current_alpha_coeff\<close> at the \<open>return\<close>: the two floors of source lines 52
  and 53 applied to the branch value.
\<close>

definition current_alpha_coeff :: "real \<Rightarrow> real \<Rightarrow> real \<Rightarrow> real \<Rightarrow> real" where
  "current_alpha_coeff T zeta alpha_max Tg =
     max 0.0 (max (branch_alpha_coeff T zeta alpha_max Tg) (0.20 * alpha_max))"

text \<open>
  \<open>china_response_spectrum\<close>. The three divisions of lines 29 to 31 raise
  \<open>ZeroDivisionError\<close> on a zero denominator, in the order in which they are evaluated.
\<close>

definition china_response_spectrum ::
  "real \<Rightarrow> real \<Rightarrow> real \<Rightarrow> real \<Rightarrow> real \<Rightarrow> py_error + real" where
  "china_response_spectrum T zeta alpha_max Tg g =
     (if 0.3 + 6.0 * zeta = 0 then Inl ZeroDivisionError
      else if 4.0 + 32.0 * zeta = 0 then Inl ZeroDivisionError
      else if 0.08 + 1.6 * zeta = 0 then Inl ZeroDivisionError
      else Inr (current_alpha_coeff T zeta alpha_max Tg * g))"

text \<open>The default of the parameter \<open>g\<close>, \<open>GRAVITY_ACCEL\<close> of config/settings.py.\<close>

definition GRAVITY_ACCEL :: real where
  "GRAVITY_ACCEL = 9.80665"

text \<open>
  The coefficient the claims speak of: the returned value divided by \<open>g\<close>, the division
  that \<open>generate_response_spectrum_data\<close> applies to the result (before it rounds). A float
  division by zero raises.
\<close>

definition spectrum_coefficient ::
  "real \<Rightarrow> real \<Rightarrow> real \<Rightarrow> real \<Rightarrow> real \<Rightarrow> py_error + real" where
  "spectrum_coefficient T zeta alpha_max Tg g =
     (case china_response_spectrum T zeta alpha_max Tg g of
        Inl e \<Rightarrow> Inl e
      | Inr r \<Rightarrow> if g = 0 then Inl ZeroDivisionError else Inr (r / g))"

text \<open>
  The factor of \<open>alpha_max\<close> in the branches of \<open>branch_alpha_coeff\<close> from the plateau on
  (source lines 41 to 47), used to state their monotonicity.
\<close>

definition descent :: "real \<Rightarrow> real \<Rightarrow> real \<Rightarrow> real" where
  "descent T zeta Tg =
     (if T \<le> Tg then eta2 zeta
      else if T \<le> 5 * Tg then ((Tg / T) powr gamma zeta) * eta2 zeta
      else (0.2 powr gamma zeta) * eta2 zeta - eta1 zeta * (T - 5 * Tg))"

section \<open>utils/helpers.py\<close>

text \<open>
  A value returned by a call of the external application: a bare integer, a string, or a
  tuple of such values (the status code first).
\<close>

datatype py_val =
    PyInt int
  | PyStr string
  | PyTuple "py_val list"

text \<open>The substrings of a function name for which \<open>check_ret\<close> accepts the code 1.\<close>

definition benign_keywords :: "string list" where
  "benign_keywords =
     [''SetNumberModes'', ''SetMaterial'', ''SetWall'', ''SetSlab'',
      ''SetRectangle'', ''SetCase'', ''Add('', ''AddByCoord'', ''SetDiaphragm'',
      ''SetPier'', ''SetSpandrel'', ''SetSelfWTMultiplier'', ''SetLoadUniform'',
      ''SetRunCaseFlag'', ''DeselectAllCasesAndCombosForOutput'',
      ''SetCaseSelectedForOutput'', ''Drift'', ''SetModifiers'',
      ''Results.ModalPeriod'', ''Results.ModalParticipatingMassRatios'',
      ''Results.StoryDrifts'', ''Results.'', ''ModalPeriod'',
      ''ModalParticipatingMassRatios'', ''StoryDrifts'', ''GetNameList'',
      ''RefreshView'']"

text \<open>
  \<open>check_ret\<close>. Its first parameter says whether the \<open>System\<close> module that
  \<open>get_etabs_modules\<close> returns is loaded; \<open>kw in func_name\<close> on strings is \<open>sublist\<close>. The
  two \<open>print\<close> calls of the benign branch differ only in the message and are not modelled.
  \<open>sys.exit\<close> is the result \<open>Inl SystemExit\<close>.
\<close>

definition check_ret :: "bool \<Rightarrow> py_val \<Rightarrow> string \<Rightarrow> int list \<Rightarrow> py_error + py_val" where
  "check_ret system_loaded ret_val func_name ok_codes =
     (if \<not> system_loaded then Inl SystemExit
      else
        let code = (case ret_val of PyTuple (c # rest) \<Rightarrow> c | _ \<Rightarrow> ret_val)
        in if code = PyInt 1 \<and> list_ex (\<lambda>kw. sublist kw func_name) benign_keywords
           then Inr code
           else if code \<notin> set (map PyInt ok_codes) then Inl SystemExit
           else Inr code)"

section \<open>results/drift\_results.py\<close>

subsection \<open>String operations\<close>

text \<open>
  \<open>str.upper\<close> and \<open>str.strip\<close> on strings of 8-bit characters (the code points 0 to
  255). \<open>upper\<close> maps the letters \<open>a\<close> to \<open>z\<close> to \<open>A\<close> to \<open>Z\<close>; every other
  character is kept here, and Python maps no other character to a letter \<open>A\<close> to \<open>Z\<close>
  or a digit except the code point 223, which it maps to \<open>SS\<close>, so the comparison of
  the upper-cased token with \<open>U1\<close>, \<open>UX\<close>, \<open>X\<close>, \<open>U2\<close>, \<open>UY\<close> and \<open>Y\<close> has the same
  outcome. The white space that \<open>strip\<close> removes at both ends is the code points 9 to
  13, 28 to 31, 32, 133 and 160.
\<close>

definition py_upper_char :: "char \<Rightarrow> char" where
  "py_upper_char c =
     (case map_of (zip ''abcdefghijklmnopqrstuvwxyz'' ''ABCDEFGHIJKLMNOPQRSTUVWXYZ'') c of
        Some u \<Rightarrow> u
      | None \<Rightarrow> c)"

definition py_upper :: "string \<Rightarrow> string" where
  "py_upper s = map py_upper_char s"

definition py_isspace :: "char \<Rightarrow> bool" where
  "py_isspace c =
     (c \<in> set [CHR 0x09, CHR 0x0A, CHR 0x0B, CHR 0x0C, CHR 0x0D,
                CHR 0x1C, CHR 0x1D, CHR 0x1E, CHR 0x1F, CHR 0x20,
                CHR 0x85, CHR 0xA0])"

definition py_strip :: "string \<Rightarrow> string" where
  "py_strip s = rev (dropWhile py_isspace (rev (dropWhile py_isspace s)))"

text \<open>
  \<open>round(x, ndigits)\<close> on the reals: the nearest multiple of \<open>10 ^ (- ndigits)\<close>, a tie
  going to the even one.
\<close>

definition py_round :: "real \<Rightarrow> nat \<Rightarrow> real" where
  "py_round x ndigits =
     (let y = x * 10 ^ ndigits;
          f = \<lfloor>y\<rfloor>;
          d = y - of_int f;
          q = (if d < 1 / 2 then f
               else if 1 / 2 < d then f + 1
               else if even f then f else f + 1)
      in of_int q / 10 ^ ndigits)"

subsection \<open>Data\<close>

text \<open>
  The data that the \<open>StoryDrifts\<close> call returns, after the conversion of each array to a
  list (source lines 104 to 114; an array that is \<open>None\<close> is the empty list).
\<close>

record story_drifts =
  num_results :: int
  story_list :: "string list"
  case_list :: "string list"
  steptype_list :: "string list"
  stepnum_list :: "real list"
  direction_list :: "string list"
  drift_list :: "real list"
  label_list :: "string list"
  x_list :: "real list"
  y_list :: "real list"
  z_list :: "real list"

text \<open>One entry of \<open>records\<close> (the dictionary \<open>rec\<close>).\<close>

record drift_record =
  rec_story :: string
  rec_load_case :: string
  rec_direction :: string
  rec_drift_permil :: real
  rec_drift_rad :: real
  rec_step_type :: string
  rec_step_num :: real
  rec_label :: string
  rec_x :: real
  rec_y :: real
  rec_z :: real

text \<open>The dictionary stored under \<open>max_drift_X\<close> and \<open>max_drift_Y\<close>.\<close>

record max_drift_info =
  value_permil :: real
  abs_value_permil :: real
  info_story :: string
  info_load_case :: string
  is_ok :: bool
  info_limit_permil :: real

text \<open>
  The two values of \<open>overall_status\<close>: the string that says the code requirement is met,
  and the string that says a limit is exceeded.
\<close>

datatype drift_status =
    MEETS_CODE
  | EXCEEDS_LIMIT

text \<open>
  The returned dictionary. A key that one of the two \<open>return\<close> statements leaves out is
  \<open>None\<close> here; \<open>error_no_data\<close> says that the key \<open>error\<close> is present.
\<close>

record drift_summary =
  records :: "drift_record list"
  total_records :: "int option"
  load_cases :: "string list option"
  limit_permil :: real
  max_drift_X :: "max_drift_info option"
  max_drift_Y :: "max_drift_info option"
  error_no_data :: bool
  overall_status :: "drift_status option"

subsection \<open>The loop over the records\<close>

definition direction_key :: "string \<Rightarrow> string" where
  "direction_key d =
     (let dir_raw = py_strip (py_upper d)
      in if dir_raw \<in> set [''U1'', ''UX'', ''X''] then ''X''
         else if dir_raw \<in> set [''U2'', ''UY'', ''Y''] then ''Y''
         else ''?'')"

definition drift_permil :: "story_drifts \<Rightarrow> nat \<Rightarrow> real" where
  "drift_permil r i = drift_list r ! i * 1000.0"

definition make_record :: "story_drifts \<Rightarrow> nat \<Rightarrow> drift_record" where
  "make_record r i =
     \<lparr> rec_story = story_list r ! i,
       rec_load_case = case_list r ! i,
       rec_direction = direction_key (direction_list r ! i),
       rec_drift_permil = py_round (drift_permil r i) 4,
       rec_drift_rad = drift_list r ! i,
       rec_step_type = steptype_list r ! i,
       rec_step_num = stepnum_list r ! i,
       rec_label = label_list r ! i,
       rec_x = x_list r ! i,
       rec_y = y_list r ! i,
       rec_z = z_list r ! i \<rparr>"

text \<open>The update of the dictionary \<open>max_drift\<close> in iteration \<open>i\<close> (lines 165 to 169).\<close>

definition update_max ::
  "story_drifts \<Rightarrow> nat \<Rightarrow> (string \<rightharpoonup> real \<times> nat option) \<Rightarrow> (string \<rightharpoonup> real \<times> nat option)" where
  "update_max r i max_drift =
     (let dir_key = direction_key (direction_list r ! i)
      in case max_drift dir_key of
           None \<Rightarrow> max_drift
         | Some (stored, idx) \<Rightarrow>
             (let current_abs = \<bar>drift_permil r i\<bar>;
                  stored_abs = \<bar>stored\<bar>
              in if current_abs > stored_abs
                 then max_drift(dir_key \<mapsto> (drift_permil r i, Some i))
                 else max_drift))"

text \<open>Every list is read at index \<open>i\<close>; a list that is too short raises \<open>IndexError\<close>.\<close>

definition in_range :: "story_drifts \<Rightarrow> nat \<Rightarrow> bool" where
  "in_range r i =
     (i < length (drift_list r) \<and> i < length (direction_list r) \<and>
      i < length (story_list r) \<and> i < length (case_list r) \<and>
      i < length (steptype_list r) \<and> i < length (stepnum_list r) \<and>
      i < length (label_list r) \<and> i < length (x_list r) \<and>
      i < length (y_list r) \<and> i < length (z_list r))"

definition drift_step ::
  "story_drifts \<Rightarrow> nat \<Rightarrow> drift_record list \<times> (string \<rightharpoonup> real \<times> nat option)
     \<Rightarrow> py_error + drift_record list \<times> (string \<rightharpoonup> real \<times> nat option)" where
  "drift_step r i st =
     (if in_range r i
      then Inr (fst st @ [make_record r i], update_max r i (snd st))
      else Inl IndexError)"

fun drift_loop ::
  "story_drifts \<Rightarrow> nat list \<Rightarrow> drift_record list \<times> (string \<rightharpoonup> real \<times> nat option)
     \<Rightarrow> py_error + drift_record list \<times> (string \<rightharpoonup> real \<times> nat option)" where
  "drift_loop r [] st = Inr st"
| "drift_loop r (i # rest) st =
     (case drift_step r i st of
        Inl e \<Rightarrow> Inl e
      | Inr st' \<Rightarrow> drift_loop r rest st')"

subsection \<open>The summary of one axis and the result\<close>

text \<open>The body of the loop over the two axes (lines 183 to 207).\<close>

definition axis_summary ::
  "real \<Rightarrow> drift_record list \<Rightarrow> (string \<rightharpoonup> real \<times> nat option) \<Rightarrow> string
     \<Rightarrow> py_error + max_drift_info option" where
  "axis_summary DRIFT_LIMIT_PERMIL recs max_drift axis =
     (case max_drift axis of
        None \<Rightarrow> Inl KeyError
      | Some (val, idx) \<Rightarrow>
          (case idx of
             None \<Rightarrow> Inr None
           | Some i \<Rightarrow>
               if \<bar>val\<bar> = 0.0 then Inr None
               else if i < length recs then
                 (let abs_val = \<bar>val\<bar>;
                      is_ok = (abs_val \<le> DRIFT_LIMIT_PERMIL);
                      info = recs ! i
                  in Inr (Some \<lparr> value_permil = val,
                                  abs_value_permil = abs_val,
                                  info_story = rec_story info,
                                  info_load_case = rec_load_case info,
                                  is_ok = is_ok,
                                  info_limit_permil = DRIFT_LIMIT_PERMIL \<rparr>))
               else Inl IndexError))"

text \<open>\<open>all(info["is_ok"] for info in max_drift_results.values() if info is not None)\<close>.\<close>

definition all_ok :: "max_drift_info option list \<Rightarrow> bool" where
  "all_ok infos = list_all (\<lambda>info. case info of None \<Rightarrow> True | Some m \<Rightarrow> is_ok m) infos"

text \<open>
  \<open>extract_story_drifts\<close> from the point where the \<open>StoryDrifts\<close> call has returned and its
  status code has passed \<open>check_ret\<close> (line 104 on). The parameters are the configured limit
  \<open>DRIFT_LIMIT_PERMIL\<close>, the list of load cases and the returned data.
\<close>

definition extract_story_drifts ::
  "real \<Rightarrow> string list \<Rightarrow> story_drifts \<Rightarrow> py_error + drift_summary" where
  "extract_story_drifts DRIFT_LIMIT_PERMIL cases r =
     (if num_results r = 0 then
        Inr \<lparr> records = [], total_records = None, load_cases = None,
              limit_permil = DRIFT_LIMIT_PERMIL, max_drift_X = None, max_drift_Y = None,
              error_no_data = True, overall_status = None \<rparr>
      else
        case drift_loop r [0 ..< nat (num_results r)]
               ([], [''X'' \<mapsto> (0.0, None), ''Y'' \<mapsto> (0.0, None)]) of
          Inl e \<Rightarrow> Inl e
        | Inr (recs, max_drift) \<Rightarrow>
            (case axis_summary DRIFT_LIMIT_PERMIL recs max_drift ''X'' of
               Inl e \<Rightarrow> Inl e
             | Inr mx \<Rightarrow>
                 (case axis_summary DRIFT_LIMIT_PERMIL recs max_drift ''Y'' of
                    Inl e \<Rightarrow> Inl e
                  | Inr my \<Rightarrow>
                      Inr \<lparr> records = recs,
                            total_records = Some (num_results r),
                            load_cases = Some cases,
                            limit_permil = DRIFT_LIMIT_PERMIL,
                            max_drift_X = mx,
                            max_drift_Y = my,
                            error_no_data = False,
                            overall_status =
                              Some (if all_ok [mx, my] then MEETS_CODE else EXCEEDS_LIMIT) \<rparr>)))"

subsection \<open>Notions used to state the claims\<close>

text \<open>
  The data are well formed when every list has an entry for each of the \<open>num_results\<close>
  records, as the external application returns them.
\<close>

definition well_formed :: "story_drifts \<Rightarrow> bool" where
  "well_formed r = list_all (in_range r) [0 ..< nat (num_results r)]"

text \<open>
  What one iteration does to the entry of \<open>max_drift\<close> for one axis, and the entry after
  the whole loop.
\<close>

definition axis_step :: "story_drifts \<Rightarrow> string \<Rightarrow> nat \<Rightarrow> real \<times> nat option \<Rightarrow> real \<times> nat option" where
  "axis_step r axis i acc =
     (if direction_key (direction_list r ! i) = axis \<and> \<bar>drift_permil r i\<bar> > \<bar>fst acc\<bar>
      then (drift_permil r i, Some i)
      else acc)"

definition axis_best :: "story_drifts \<Rightarrow> string \<Rightarrow> real \<times> nat option" where
  "axis_best r axis = fold (axis_step r axis) [0 ..< nat (num_results r)] (0, None)"

text \<open>The summary of one axis, read off the data instead of the loop's state.\<close>

definition axis_info :: "real \<Rightarrow> story_drifts \<Rightarrow> string \<Rightarrow> max_drift_info option" where
  "axis_info DRIFT_LIMIT_PERMIL r axis =
     (case axis_best r axis of
        (v, None) \<Rightarrow> None
      | (v, Some i) \<Rightarrow>
          if v = 0 then None
          else Some \<lparr> value_permil = v,
                      abs_value_permil = \<bar>v\<bar>,
                      info_story = story_list r ! i,
                      info_load_case = case_list r ! i,
                      is_ok = (\<bar>v\<bar> \<le> DRIFT_LIMIT_PERMIL),
                      info_limit_permil = DRIFT_LIMIT_PERMIL \<rparr>)"

text \<open>
  A record has a known direction when its direction token is normalised to \<open>X\<close> or \<open>Y\<close>.
  Two data sets have the same known rows when they have the same number of records, each
  record is given the same key in both, and the records with a known direction have the
  same drift, story and load case in both; the records of unknown direction may differ.
  A data set has no known drift when every record of known direction has the drift 0.
\<close>

definition known_direction :: "story_drifts \<Rightarrow> nat \<Rightarrow> bool" where
  "known_direction r i = (direction_key (direction_list r ! i) \<in> set [''X'', ''Y''])"

definition same_known_rows :: "story_drifts \<Rightarrow> story_drifts \<Rightarrow> bool" where
  "same_known_rows r r' =
     (num_results r = num_results r' \<and>
      list_all
        (\<lambda>i. direction_key (direction_list r ! i) = direction_key (direction_list r' ! i) \<and>
             (known_direction r i \<longrightarrow>
                drift_list r ! i = drift_list r' ! i \<and>
                story_list r ! i = story_list r' ! i \<and>
                case_list r ! i = case_list r' ! i))
        [0 ..< nat (num_results r)])"

definition no_known_drift :: "story_drifts \<Rightarrow> bool" where
  "no_known_drift r =
     list_all (\<lambda>i. known_direction r i \<longrightarrow> drift_list r ! i = 0) [0 ..< nat (num_results r)]"

text \<open>
  Data sets for the examples: two records with the raw drifts 0.0012 (direction \<open>X\<close>) and
  0.0008 (direction \<open>Y\<close>); three records of which the second has the unknown direction
  \<open>RZ\<close>, in two variants that differ in that record only; and two records of which the
  only one with a drift other than 0 has the unknown direction.
\<close>

definition drifts_two_rows :: story_drifts where
  "drifts_two_rows =
     \<lparr> num_results = 2,
       story_list = [''Story2'', ''Story1''],
       case_list = [''RS-X'', ''RS-Y''],
       steptype_list = [''Max'', ''Max''],
       stepnum_list = [0, 0],
       direction_list = [''X'', ''Y''],
       drift_list = [0.0012, 0.0008],
       label_list = [''12'', ''7''],
       x_list = [0, 0],
       y_list = [0, 0],
       z_list = [6, 3] \<rparr>"

definition drifts_unknown_row :: "real \<Rightarrow> string \<Rightarrow> story_drifts" where
  "drifts_unknown_row d s =
     \<lparr> num_results = 3,
       story_list = [''Story2'', s, ''Story1''],
       case_list = [''RS-X'', ''RS-X'', ''RS-Y''],
       steptype_list = [''Max'', ''Max'', ''Max''],
       stepnum_list = [0, 0, 0],
       direction_list = [''u1'', ''RZ'', '' UY ''],
       drift_list = [0.0005, d, - 0.0003],
       label_list = [''12'', ''12'', ''7''],
       x_list = [0, 0, 0],
       y_list = [0, 0, 0],
       z_list = [6, 6, 3] \<rparr>"

definition drifts_no_known :: story_drifts where
  "drifts_no_known =
     \<lparr> num_results = 2,
       story_list = [''Story2'', ''Story1''],
       case_list = [''RS-X'', ''RS-X''],
       steptype_list = [''Max'', ''Max''],
       stepnum_list = [0, 0],
       direction_list = [''X'', ''RZ''],
       drift_list = [0, 0.7],
       label_list = [''12'', ''7''],
       x_list = [0, 0],
       y_list = [0, 0],
       z_list = [6, 3] \<rparr>"

section \<open>geometry/common.py\<close>

text \<open>
  The text of a non-negative integer in a formatted string literal, \<open>f"{n}"\<close>: its decimal
  digits. The text of an integer has a minus sign in front when the integer is negative.
\<close>

definition digit_char :: "nat \<Rightarrow> char" where
  "digit_char d = ''0123456789'' ! d"

fun str_nat :: "nat \<Rightarrow> string" where
  "str_nat n = (if n < 10 then [digit_char n] else str_nat (n div 10) @ [digit_char (n mod 10)])"

declare str_nat.simps [simp del]

definition str_int :: "int \<Rightarrow> string" where
  "str_int i = (if i < 0 then CHR ''-'' # str_nat (nat (- i)) else str_nat (nat i))"

text \<open>
  The names of the configuration that the grid is built from. The configuration is a
  parameter of every function that reads it.
\<close>

record grid_config =
  NUM_GRID_LINES_X :: int
  NUM_GRID_LINES_Y :: int
  SPACING_X :: real
  SPACING_Y :: real

text \<open>
  \<open>generate_grid_coordinates\<close>. The index \<open>i\<close> of \<open>range(n)\<close> runs over the natural numbers
  below \<open>n\<close>, none when \<open>n\<close> is not positive.
\<close>

definition generate_grid_coordinates :: "'a grid_config_scheme \<Rightarrow> real list \<times> real list" where
  "generate_grid_coordinates cfg =
     (let grid_x = map (\<lambda>i. of_nat i * SPACING_X cfg) [0 ..< nat (NUM_GRID_LINES_X cfg)];
          grid_y = map (\<lambda>i. of_nat i * SPACING_Y cfg) [0 ..< nat (NUM_GRID_LINES_Y cfg)]
      in (grid_x, grid_y))"

text \<open>The attributes of the class \<open>StructuralElementPlan\<close>.\<close>

record StructuralElementPlan =
  x_coords :: "real list"
  y_coords :: "real list"
  section_name :: string
  base_name_template :: string
  is_coupling_beam :: bool
  element_type_prefix :: string

section \<open>geometry/shear\_wall\_geometry.py\<close>

record wall_config = grid_config +
  WALL_SECTION_NAME :: string
  COUPLING_BEAM_SECTION_NAME :: string

text \<open>The values of config/config\_shear\_wall.py.\<close>

definition config_shear_wall :: wall_config where
  "config_shear_wall =
     \<lparr> NUM_GRID_LINES_X = 5, NUM_GRID_LINES_Y = 3, SPACING_X = 6.0, SPACING_Y = 6.0,
       WALL_SECTION_NAME = ''Wall-200'', COUPLING_BEAM_SECTION_NAME = ''CB-200'' \<rparr>"

text \<open>
  The three elements that one iteration of the first inner loop appends (lines 42 to 61),
  for the bay between the grid lines \<open>ix\<close> and \<open>ix + 1\<close> on the grid line \<open>iy\<close> at \<open>y_c\<close>.
  The index \<open>ix + 1\<close> is within \<open>grid_x\<close>, which has \<open>NUM_GRID_LINES_X\<close> entries, because
  \<open>ix\<close> is below \<open>NUM_GRID_LINES_X - 1\<close>.
\<close>

definition horizontal_elements ::
  "wall_config \<Rightarrow> real list \<Rightarrow> nat \<Rightarrow> real \<Rightarrow> nat \<Rightarrow> StructuralElementPlan list" where
  "horizontal_elements cfg grid_x iy y_c ix =
     (let seg_f = 1 / 3.0;
          xs = grid_x ! ix;
          xe = grid_x ! (ix + 1)
      in [\<lparr> x_coords = [xs, xs + SPACING_X cfg * seg_f, xs + SPACING_X cfg * seg_f, xs],
            y_coords = replicate 4 y_c,
            section_name = WALL_SECTION_NAME cfg,
            base_name_template = ''HWL_X'' @ str_nat ix @ ''_Y'' @ str_nat iy,
            is_coupling_beam = False,
            element_type_prefix = ''P'' \<rparr>,
          \<lparr> x_coords = [xs + SPACING_X cfg * seg_f, xs + SPACING_X cfg * 2 * seg_f,
                        xs + SPACING_X cfg * 2 * seg_f, xs + SPACING_X cfg * seg_f],
            y_coords = replicate 4 y_c,
            section_name = COUPLING_BEAM_SECTION_NAME cfg,
            base_name_template = ''HCB_X'' @ str_nat ix @ ''_Y'' @ str_nat iy,
            is_coupling_beam = True,
            element_type_prefix = ''S'' \<rparr>,
          \<lparr> x_coords = [xs + SPACING_X cfg * 2 * seg_f, xe, xe, xs + SPACING_X cfg * 2 * seg_f],
            y_coords = replicate 4 y_c,
            section_name = WALL_SECTION_NAME cfg,
            base_name_template = ''HWR_X'' @ str_nat ix @ ''_Y'' @ str_nat iy,
            is_coupling_beam = False,
            element_type_prefix = ''P'' \<rparr>])"

text \<open>
  The three elements that one iteration of the second inner loop appends (lines 66 to 85),
  for the bay between the grid lines \<open>iy\<close> and \<open>iy + 1\<close> on the grid line \<open>ix\<close> at \<open>x_c\<close>.
\<close>

definition vertical_elements ::
  "wall_config \<Rightarrow> real list \<Rightarrow> nat \<Rightarrow> real \<Rightarrow> nat \<Rightarrow> StructuralElementPlan list" where
  "vertical_elements cfg grid_y ix x_c iy =
     (let seg_f = 1 / 3.0;
          ys = grid_y ! iy;
          ye = grid_y ! (iy + 1)
      in [\<lparr> x_coords = replicate 4 x_c,
            y_coords = [ys, ys + SPACING_Y cfg * seg_f, ys + SPACING_Y cfg * seg_f, ys],
            section_name = WALL_SECTION_NAME cfg,
            base_name_template = ''VWB_X'' @ str_nat ix @ ''_Y'' @ str_nat iy,
            is_coupling_beam = False,
            element_type_prefix = ''P'' \<rparr>,
          \<lparr> x_coords = replicate 4 x_c,
            y_coords = [ys + SPACING_Y cfg * seg_f, ys + SPACING_Y cfg * 2 * seg_f,
                        ys + SPACING_Y cfg * 2 * seg_f, ys + SPACING_Y cfg * seg_f],
            section_name = COUPLING_BEAM_SECTION_NAME cfg,
            base_name_template = ''VCB_X'' @ str_nat ix @ ''_Y'' @ str_nat iy,
            is_coupling_beam = True,
            element_type_prefix = ''S'' \<rparr>,
          \<lparr> x_coords = replicate 4 x_c,
            y_coords = [ys + SPACING_Y cfg * 2 * seg_f, ye, ye, ys + SPACING_Y cfg * 2 * seg_f],
            section_name = WALL_SECTION_NAME cfg,
            base_name_template = ''VWT_X'' @ str_nat ix @ ''_Y'' @ str_nat iy,
            is_coupling_beam = False,
            element_type_prefix = ''P'' \<rparr>])"

text \<open>
  \<open>generate_shear_wall_planar_layout\<close>: the elements of the two nested loops, in the order
  in which they are appended.
\<close>

definition generate_shear_wall_planar_layout :: "wall_config \<Rightarrow> StructuralElementPlan list" where
  "generate_shear_wall_planar_layout cfg =
     (case generate_grid_coordinates cfg of
        (grid_x, grid_y) \<Rightarrow>
          concat (map (\<lambda>(iy, y_c).
                    concat (map (horizontal_elements cfg grid_x iy y_c)
                              [0 ..< nat (NUM_GRID_LINES_X cfg - 1)]))
                  (enumerate 0 grid_y)) @
          concat (map (\<lambda>(ix, x_c).
                    concat (map (vertical_elements cfg grid_y ix x_c)
                              [0 ..< nat (NUM_GRID_LINES_Y cfg - 1)]))
                  (enumerate 0 grid_x)))"

section \<open>geometry/mesh\_utils.py\<close>

text \<open>
  One mesh element: the tuple \<open>(mesh_x, mesh_y, mesh_z)\<close> of the coordinates of its four
  points.
\<close>

type_synonym mesh_element = "real list \<times> real list \<times> real list"


text \<open>\<open>create_slab_mesh_grid\<close>: the same subdivision in X and Y at one elevation.\<close>

definition create_slab_mesh_grid ::
  "real \<Rightarrow> real \<Rightarrow> real \<Rightarrow> real \<Rightarrow> real \<Rightarrow> int \<Rightarrow> int \<Rightarrow> py_error + mesh_element list" where
  "create_slab_mesh_grid x_min x_max y_min y_max z_coord mesh_x mesh_y =
     (let width_x = x_max - x_min;
          width_y = y_max - y_min
      in if mesh_x = 0 then Inl ZeroDivisionError
         else if mesh_y = 0 then Inl ZeroDivisionError
         else
           (let dx = width_x / of_int mesh_x;
                dy = width_y / of_int mesh_y
            in Inr (concat (map (\<lambda>i. map (\<lambda>j.
                 (let x0 = x_min + of_nat i * dx;
                      x1 = x_min + of_nat (i + 1) * dx;
                      y0 = y_min + of_nat j * dy;
                      y1 = y_min + of_nat (j + 1) * dy
                  in ([x0, x1, x1, x0], [y0, y0, y1, y1], replicate 4 z_coord)))
                 [0 ..< nat mesh_y]) [0 ..< nat mesh_x]))))"




section \<open>The response spectrum\<close>

subsection \<open>Facts about the coefficients\<close>

lemma eta2_ge: "0.55 \<le> eta2 zeta"
  by (simp add: eta2_def)

lemma eta1_nonneg: "0 \<le> eta1 zeta"
  by (simp add: eta1_def)

lemma gamma_nonneg:
  assumes "0 \<le> zeta"
  shows "0 \<le> gamma zeta"
proof -
  have pos: "0 < 0.3 + 6.0 * zeta" using assms by simp
  have "- 0.9 * (0.3 + 6.0 * zeta) \<le> 0.05 - zeta" using assms by (simp add: algebra_simps)
  then have "- 0.9 \<le> (0.05 - zeta) / (0.3 + 6.0 * zeta)"
    using pos by (simp add: pos_le_divide_eq)
  then show ?thesis by (simp add: gamma_def)
qed

lemma china_response_spectrum_returns:
  assumes "0 \<le> zeta"
  shows "china_response_spectrum T zeta alpha_max Tg g
           = Inr (current_alpha_coeff T zeta alpha_max Tg * g)"
proof -
  have "0.3 + 6.0 * zeta \<noteq> 0" "4.0 + 32.0 * zeta \<noteq> 0" "0.08 + 1.6 * zeta \<noteq> 0"
    using assms by simp_all
  then show ?thesis by (simp add: china_response_spectrum_def)
qed

lemma power_base_positive:
  fixes T Tg :: real
  assumes "0.1 < T" and "T \<le> 5.0 * Tg"
  shows "0 < Tg / T"
proof -
  have "0 < T" and "0 < Tg" using assms by linarith+
  then show ?thesis by simp
qed

lemma spectrum_coefficient_eq:
  assumes "0 \<le> zeta" and "g \<noteq> 0"
  shows "spectrum_coefficient T zeta alpha_max Tg g = Inr (current_alpha_coeff T zeta alpha_max Tg)"
  using assms by (simp add: spectrum_coefficient_def china_response_spectrum_returns)

lemma ramp_arith:
  fixes e T :: real
  assumes "T \<le> 1 / 10" and "45 / 100 \<le> e"
  shows "45 / 100 + 10 * (e - 45 / 100) * T \<le> e"
proof -
  have "0 \<le> (e - 45 / 100) * (1 / 10 - T)"
    using assms by (intro mult_nonneg_nonneg) simp_all
  also have "\<dots> = e / 10 - e * T - 45 / 1000 + 45 / 100 * T"
    by (simp add: field_simps)
  finally have h: "0 \<le> e / 10 - e * T - 45 / 1000 + 45 / 100 * T" .
  have "10 * (e - 45 / 100) * T = 10 * (e * T) - 45 / 10 * T"
    by (simp add: algebra_simps)
  with h show ?thesis by linarith
qed

lemma ramp_le_plateau:
  fixes T :: real
  assumes "T \<le> 0.1" 
  shows "0.45 + 10.0 * (eta2 zeta - 0.45) * T \<le> eta2 zeta"
proof -
  have "45 / 100 \<le> eta2 zeta" using eta2_ge [of zeta] by simp
  then show ?thesis using ramp_arith [of T "eta2 zeta"] assms by simp
qed

lemma branch_low:
  fixes T :: real
  assumes "0 \<le> T" and "T \<le> 0.1" and "0 \<le> alpha_max"
  shows "branch_alpha_coeff T zeta alpha_max Tg = (0.45 + 10.0 * (eta2 zeta - 0.45) * T) * alpha_max"
proof (cases "T = 0")
  case True
  then show ?thesis by (simp add: branch_alpha_coeff_def)
next
  case False
  have "(0.45 + 10.0 * (eta2 zeta - 0.45) * T) * alpha_max \<le> eta2 zeta * alpha_max"
    using ramp_le_plateau [OF assms(2)] assms(3) by (rule mult_right_mono)
  then show ?thesis using False assms by (simp add: branch_alpha_coeff_def min_def)
qed

lemma branch_mono_low:
  fixes T1 T2 :: real
  assumes "0 \<le> T1" and "T1 \<le> T2" and "T2 \<le> 0.1" and "0 \<le> alpha_max"
  shows "branch_alpha_coeff T1 zeta alpha_max Tg \<le> branch_alpha_coeff T2 zeta alpha_max Tg"
proof -
  have "10.0 * (eta2 zeta - 0.45) * T1 \<le> 10.0 * (eta2 zeta - 0.45) * T2"
    using assms eta2_ge [of zeta] by (intro mult_left_mono) simp_all
  then have "(0.45 + 10.0 * (eta2 zeta - 0.45) * T1) * alpha_max
      \<le> (0.45 + 10.0 * (eta2 zeta - 0.45) * T2) * alpha_max"
    using assms(4) by (intro mult_right_mono) simp_all
  then show ?thesis using assms by (simp add: branch_low)
qed

lemma branch_plateau:
  fixes T :: real
  assumes "0.1 \<le> T" and "T \<le> Tg" and "0 \<le> alpha_max"
  shows "branch_alpha_coeff T zeta alpha_max Tg = eta2 zeta * alpha_max"
proof (cases "T = 0.1")
  case True
  have "branch_alpha_coeff 0.1 zeta alpha_max Tg = eta2 zeta * alpha_max"
    using assms(3) by (simp add: branch_low field_simps)
  then show ?thesis unfolding True .
next
  case False
  then show ?thesis using assms by (simp add: branch_alpha_coeff_def)
qed




lemma branch_power:
  fixes T :: real
  assumes "0.1 \<le> Tg" and "Tg < T" and "T \<le> 5.0 * Tg"
  shows "branch_alpha_coeff T zeta alpha_max Tg = ((Tg / T) powr gamma zeta) * eta2 zeta * alpha_max"
  using assms by (simp add: branch_alpha_coeff_def)

lemma branch_linear:
  fixes T :: real
  assumes "0.1 \<le> Tg" and "Tg < T" and "5.0 * Tg < T" and "T \<le> 6.0"
  shows "branch_alpha_coeff T zeta alpha_max Tg =
           ((0.2 powr gamma zeta) * eta2 zeta - eta1 zeta * (T - 5.0 * Tg)) * alpha_max"
  using assms by (simp add: branch_alpha_coeff_def)

lemma branch_descent:
  fixes T :: real
  assumes "0.1 \<le> Tg" and "Tg \<le> T" and "T \<le> 6" and "0 \<le> alpha_max"
  shows "branch_alpha_coeff T zeta alpha_max Tg = descent T zeta Tg * alpha_max"
proof -
  consider "T = Tg" | "Tg < T" "T \<le> 5 * Tg" | "Tg < T" "5 * Tg < T" using assms by linarith
  then show ?thesis
  proof cases
    case 1
    then show ?thesis using assms branch_plateau [of T Tg alpha_max zeta] by (simp add: descent_def)
  next
    case 2
    then show ?thesis using assms branch_power [of Tg T zeta alpha_max] by (simp add: descent_def)
  next
    case 3
    then show ?thesis using assms branch_linear [of Tg T zeta alpha_max] by (simp add: descent_def)
  qed
qed

lemma powr_le_one:
  fixes x a :: real
  assumes "0 \<le> x" and "x \<le> 1" and "0 \<le> a"
  shows "x powr a \<le> 1"
  using powr_mono2 [OF assms(3) assms(1) assms(2)] by simp

lemma descent_antimono:
  fixes T1 T2 :: real
  assumes z: "0 \<le> zeta" and tg: "0 < Tg" and le: "Tg \<le> T1" "T1 \<le> T2"
  shows "descent T2 zeta Tg \<le> descent T1 zeta Tg"
proof -
  have g: "0 \<le> gamma zeta" using z by (rule gamma_nonneg)
  have e2: "0 \<le> eta2 zeta" using eta2_ge [of zeta] by simp
  have e1: "0 \<le> eta1 zeta" by (rule eta1_nonneg)
  have pos: "0 < T1" "0 < T2" using tg le by linarith+
  have fifth: "0.2 powr gamma zeta \<le> (Tg / T) powr gamma zeta" if "0 < T" "T \<le> 5 * Tg" for T
  proof -
    have "(0.2::real) \<le> Tg / T" using that by (simp add: pos_le_divide_eq)
    then show ?thesis using g by (intro powr_mono2) simp_all
  qed
  have one: "(Tg / T) powr gamma zeta \<le> 1" if "Tg \<le> T" for T
  proof -
    have "0 < T" using tg that by linarith
    then have "Tg / T \<le> 1" "0 \<le> Tg / T" using tg that by simp_all
    then show ?thesis using g by (intro powr_le_one) simp_all
  qed
  have lin: "(0.2 powr gamma zeta) * eta2 zeta - eta1 zeta * (T - 5 * Tg)
      \<le> (0.2 powr gamma zeta) * eta2 zeta" if "5 * Tg < T" for T
  proof -
    have "0 \<le> eta1 zeta * (T - 5 * Tg)" using e1 that by (intro mult_nonneg_nonneg) simp_all
    then show ?thesis by linarith
  qed
  consider (a) "T2 \<le> Tg" | (b) "T1 \<le> Tg" "Tg < T2" "T2 \<le> 5 * Tg"
    | (c) "T1 \<le> Tg" "Tg < T2" "5 * Tg < T2"
    | (d) "Tg < T1" "T2 \<le> 5 * Tg" | (e) "Tg < T1" "T1 \<le> 5 * Tg" "5 * Tg < T2"
    | (f) "Tg < T1" "5 * Tg < T1"
    using le by linarith
  then show ?thesis
  proof cases
    case a
    then show ?thesis using le by (simp add: descent_def)
  next
    case b
    have "(Tg / T2) powr gamma zeta * eta2 zeta \<le> 1 * eta2 zeta"
      using one [of T2] b e2 by (intro mult_right_mono) simp_all
    then show ?thesis using b by (simp add: descent_def)
  next
    case c
    have "(0.2 powr gamma zeta) * eta2 zeta \<le> 1 * eta2 zeta"
      using g e2 by (intro mult_right_mono powr_le_one) simp_all
    then show ?thesis using c lin [of T2] by (simp add: descent_def)
  next
    case d
    have "Tg / T2 \<le> Tg / T1" using pos tg le by (simp add: frac_le)
    then have "(Tg / T2) powr gamma zeta \<le> (Tg / T1) powr gamma zeta"
      using g pos tg by (intro powr_mono2) simp_all
    then have "(Tg / T2) powr gamma zeta * eta2 zeta \<le> (Tg / T1) powr gamma zeta * eta2 zeta"
      using e2 by (rule mult_right_mono)
    then show ?thesis using d le by (simp add: descent_def)
  next
    case e
    have "0.2 powr gamma zeta * eta2 zeta \<le> (Tg / T1) powr gamma zeta * eta2 zeta"
      using fifth [of T1] pos e e2 by (intro mult_right_mono) simp_all
    then show ?thesis using e lin [of T2] by (simp add: descent_def)
  next
    case f
    have "eta1 zeta * (T1 - 5 * Tg) \<le> eta1 zeta * (T2 - 5 * Tg)"
      using e1 le by (intro mult_left_mono) simp_all
    then show ?thesis using f le by (simp add: descent_def)
  qed
qed

lemma coeff_mono_up:
  fixes T1 T2 :: real
  assumes "0.1 \<le> Tg" and "0 \<le> alpha_max" and "0 \<le> T1" and "T1 \<le> T2" and "T2 \<le> Tg"
  shows "current_alpha_coeff T1 zeta alpha_max Tg \<le> current_alpha_coeff T2 zeta alpha_max Tg"
proof -
  have "branch_alpha_coeff T1 zeta alpha_max Tg \<le> branch_alpha_coeff T2 zeta alpha_max Tg"
  proof (cases "T2 \<le> 0.1")
    case True
    then show ?thesis using assms by (intro branch_mono_low) simp_all
  next
    case False
    then have p2: "branch_alpha_coeff T2 zeta alpha_max Tg = eta2 zeta * alpha_max"
      using assms by (intro branch_plateau) simp_all
    show ?thesis
    proof (cases "T1 \<le> 0.1")
      case True
      have "(0.45 + 10.0 * (eta2 zeta - 0.45) * T1) * alpha_max \<le> eta2 zeta * alpha_max"
        using ramp_le_plateau [OF True] assms(2) by (rule mult_right_mono)
      then show ?thesis using True assms p2 by (simp add: branch_low)
    next
      case False
      then have "branch_alpha_coeff T1 zeta alpha_max Tg = eta2 zeta * alpha_max"
        using assms by (intro branch_plateau) simp_all
      then show ?thesis using p2 by simp
    qed
  qed
  then show ?thesis
    unfolding current_alpha_coeff_def by (intro max.mono order_refl)
qed

lemma coeff_mono_down:
  fixes T1 T2 :: real
  assumes "0 \<le> zeta" and "0.1 \<le> Tg" and "0 \<le> alpha_max"
    and "Tg \<le> T1" and "T1 \<le> T2" and "T2 \<le> 6"
  shows "current_alpha_coeff T2 zeta alpha_max Tg \<le> current_alpha_coeff T1 zeta alpha_max Tg"
proof -
  have tg: "0 < Tg" using assms(2) by simp
  have "descent T2 zeta Tg * alpha_max \<le> descent T1 zeta Tg * alpha_max"
    using descent_antimono [OF assms(1) tg assms(4) assms(5)] assms(3) by (rule mult_right_mono)
  then have "branch_alpha_coeff T2 zeta alpha_max Tg \<le> branch_alpha_coeff T1 zeta alpha_max Tg"
    using assms by (simp add: branch_descent)
  then show ?thesis
    unfolding current_alpha_coeff_def by (intro max.mono order_refl)
qed

lemma coeff_at_Tg:
  assumes "0.1 \<le> Tg" and "0 \<le> alpha_max"
  shows "current_alpha_coeff Tg zeta alpha_max Tg = eta2 zeta * alpha_max"
proof -
  have b: "branch_alpha_coeff Tg zeta alpha_max Tg = eta2 zeta * alpha_max"
    using assms by (intro branch_plateau) simp_all
  have "0.20 * alpha_max \<le> eta2 zeta * alpha_max"
    using eta2_ge [of zeta] assms(2) by (intro mult_right_mono) simp_all
  then have "max (eta2 zeta * alpha_max) (0.20 * alpha_max) = eta2 zeta * alpha_max"
    by (rule max_absorb1)
  moreover have "0 \<le> eta2 zeta * alpha_max"
    using eta2_ge [of zeta] assms(2) by (intro mult_nonneg_nonneg) simp_all
  then have "max 0.0 (eta2 zeta * alpha_max) = eta2 zeta * alpha_max"
    by simp
  ultimately show ?thesis unfolding current_alpha_coeff_def b by simp
qed



lemma coeff_right_limit:
  assumes tg: "0.1 \<le> Tg" and a: "0 \<le> alpha_max"
  shows "((\<lambda>T. current_alpha_coeff T zeta alpha_max Tg) \<longlongrightarrow> eta2 zeta * alpha_max)
           (at_right Tg)"
proof -
  let ?h = "\<lambda>T. max 0.0 (max (((Tg / T) powr gamma zeta) * eta2 zeta * alpha_max) (0.20 * alpha_max))"
  have pos: "0 < Tg" using tg by simp
  have "(?h \<longlongrightarrow> max 0.0 (max (((Tg / Tg) powr gamma zeta) * eta2 zeta * alpha_max) (0.20 * alpha_max)))
          (at_right Tg)"
    using pos by (intro tendsto_intros) simp_all
  moreover have "max 0.0 (max (((Tg / Tg) powr gamma zeta) * eta2 zeta * alpha_max) (0.20 * alpha_max))
      = eta2 zeta * alpha_max"
    using coeff_at_Tg [OF tg a, of zeta] branch_plateau [of Tg Tg alpha_max zeta] tg a pos
    by (simp add: current_alpha_coeff_def)
  ultimately have lim: "(?h \<longlongrightarrow> eta2 zeta * alpha_max) (at_right Tg)" by simp
  have "eventually (\<lambda>T. ?h T = current_alpha_coeff T zeta alpha_max Tg) (at_right Tg)"
  proof -
    have "Tg < 5 * Tg" using pos by simp
    moreover have "\<forall>T>Tg. T < 5 * Tg \<longrightarrow> ?h T = current_alpha_coeff T zeta alpha_max Tg"
      using tg by (simp add: current_alpha_coeff_def branch_power)
    ultimately show ?thesis
      using eventually_at_right [of Tg "5 * Tg"] by blast
  qed
  with lim show ?thesis by (rule Lim_transform_eventually)
qed

lemma coeff_left_limit:
  assumes tg: "0.1 \<le> Tg" and a: "0 \<le> alpha_max"
  shows "((\<lambda>T. current_alpha_coeff T zeta alpha_max Tg) \<longlongrightarrow> eta2 zeta * alpha_max)
           (at_left Tg)"
proof -
  let ?h = "\<lambda>T. max 0.0 (max ((0.45 + 10.0 * (eta2 zeta - 0.45) * min T 0.1) * alpha_max) (0.20 * alpha_max))"
  have "(?h \<longlongrightarrow> max 0.0 (max ((0.45 + 10.0 * (eta2 zeta - 0.45) * min Tg 0.1) * alpha_max) (0.20 * alpha_max)))
          (at_left Tg)"
    by (intro tendsto_intros)
  moreover have "min Tg 0.1 = 0.1" using tg by simp
  moreover have "max 0.0 (max ((0.45 + 10.0 * (eta2 zeta - 0.45) * 0.1) * alpha_max) (0.20 * alpha_max))
      = eta2 zeta * alpha_max"
    using coeff_at_Tg [of "0.1" alpha_max zeta] a branch_low [of "0.1" alpha_max zeta "0.1"]
    by (simp add: current_alpha_coeff_def)
  ultimately have lim: "(?h \<longlongrightarrow> eta2 zeta * alpha_max) (at_left Tg)" by simp
  have "eventually (\<lambda>T. ?h T = current_alpha_coeff T zeta alpha_max Tg) (at_left Tg)"
  proof -
    have "0 < Tg" using tg by simp
    moreover have "\<forall>T>0. T < Tg \<longrightarrow> ?h T = current_alpha_coeff T zeta alpha_max Tg"
    proof (intro allI impI)
      fix T :: real assume T: "0 < T" "T < Tg"
      show "?h T = current_alpha_coeff T zeta alpha_max Tg"
      proof (cases "T \<le> 0.1")
        case True
        then show ?thesis using T a by (simp add: current_alpha_coeff_def branch_low)
      next
        case False
        then have "branch_alpha_coeff T zeta alpha_max Tg = eta2 zeta * alpha_max"
          using T a by (intro branch_plateau) simp_all
        moreover have "min T 0.1 = 0.1" using False by simp
        ultimately show ?thesis by (simp add: current_alpha_coeff_def field_simps)
      qed
    qed
    ultimately show ?thesis
      using eventually_at_left [of 0 Tg] by blast
  qed
  with lim show ?thesis by (rule Lim_transform_eventually)
qed

subsection \<open>Claims on the response spectrum\<close>

text \<open>
  C1, as stated: for every negative period the function returns 0. It fails: the branch
  value is 0, but the floor of line 52 is applied to every branch, so a positive
  \<open>alpha_max\<close> gives \<open>0.20 * alpha_max * g\<close>. At \<open>T = -1\<close> with the configured damping
  ratio 0.05, peak coefficient 0.08 and characteristic period 0.65 the result is
  \<open>0.016 * 9.80665\<close>.
\<close>

theorem C1_negative_period_counterexample:
  "china_response_spectrum (- 1) 0.05 0.08 0.65 GRAVITY_ACCEL = Inr 0.1569064 \<and>
   china_response_spectrum (- 1) 0.05 0.08 0.65 GRAVITY_ACCEL \<noteq> Inr 0"
  by (simp add: china_response_spectrum_def current_alpha_coeff_def branch_alpha_coeff_def
      GRAVITY_ACCEL_def)

text \<open>
  C1, amended: for every period \<open>T < 0\<close> and every damping ratio at which the three
  divisions are defined, the branch value of the coefficient is 0 and the function returns
  \<open>max 0 (0.20 * alpha_max) * g\<close>, whatever \<open>Tg\<close> is; this is 0 when \<open>alpha_max \<le> 0\<close>.
\<close>

theorem C1_negative_period_floor:
  assumes "T < 0" and "0.3 + 6.0 * zeta \<noteq> 0" and "4.0 + 32.0 * zeta \<noteq> 0"
    and "0.08 + 1.6 * zeta \<noteq> 0"
  shows "branch_alpha_coeff T zeta alpha_max Tg = 0 \<and>
         china_response_spectrum T zeta alpha_max Tg g = Inr (max 0 (0.20 * alpha_max) * g) \<and>
         (alpha_max \<le> 0 \<longrightarrow> china_response_spectrum T zeta alpha_max Tg g = Inr 0)"
  using assms
  by (simp add: china_response_spectrum_def current_alpha_coeff_def branch_alpha_coeff_def
      max_def)

theorem C1_negative_period_floor_witness:
  "(- 2 :: real) < 0 \<and> 0.3 + 6.0 * (0.05 :: real) \<noteq> 0 \<and> 4.0 + 32.0 * (0.05 :: real) \<noteq> 0 \<and>
   0.08 + 1.6 * (0.05 :: real) \<noteq> 0 \<and> (0 :: real) \<le> 0 \<and>
   branch_alpha_coeff (- 2) 0.05 0 0.65 = 0 \<and>
   china_response_spectrum (- 2) 0.05 0 0.65 GRAVITY_ACCEL = Inr 0"
  using C1_negative_period_floor [of "- 2" "0.05" 0 "0.65" GRAVITY_ACCEL]
  by simp

text \<open>
  C2: for every period \<open>T \<ge> 0\<close>, damping ratio \<open>zeta \<ge> 0\<close>, peak coefficient
  \<open>alpha_max \<ge> 0\<close>, any characteristic period and any \<open>g\<close> other than 0, the function
  returns, and the returned value divided by \<open>g\<close> is at least \<open>0.20 * alpha_max\<close> and is
  not negative.
\<close>

theorem C2_coefficient_floor:
  assumes "0 \<le> T" and "0 \<le> zeta" and "0 \<le> alpha_max" and "g \<noteq> 0"
  shows "\<exists>c. spectrum_coefficient T zeta alpha_max Tg g = Inr c \<and>
             0.20 * alpha_max \<le> c \<and> 0 \<le> c"
proof -
  have "0.20 * alpha_max \<le> current_alpha_coeff T zeta alpha_max Tg"
    unfolding current_alpha_coeff_def by (rule max.coboundedI2) (rule max.cobounded2)
  moreover have "0 \<le> current_alpha_coeff T zeta alpha_max Tg"
    unfolding current_alpha_coeff_def by (rule max.coboundedI1) simp
  ultimately show ?thesis
    using assms by (simp add: spectrum_coefficient_eq)
qed

theorem C2_coefficient_floor_witness:
  "(0 :: real) \<le> 1 \<and> (0 :: real) \<le> 0.05 \<and> (0 :: real) \<le> 0.08 \<and> GRAVITY_ACCEL \<noteq> 0 \<and>
   (\<exists>c. spectrum_coefficient 1 0.05 0.08 0.65 GRAVITY_ACCEL = Inr c \<and>
        0.20 * 0.08 \<le> c \<and> 0 \<le> c)"
  using C2_coefficient_floor [of 1 "0.05" "0.08" GRAVITY_ACCEL "0.65"]
  by (simp add: GRAVITY_ACCEL_def)

text \<open>
  C3, as stated: for any fixed \<open>zeta\<close>, \<open>Tg\<close> and \<open>alpha_max\<close> the coefficient at \<open>T = Tg\<close>
  is \<open>eta2 * alpha_max\<close>. It fails when \<open>Tg\<close> is below 0.1: the ramp branch \<open>T \<le> 0.1\<close> is
  tested before the plateau branch \<open>T \<le> Tg\<close>. With \<open>zeta = 0.05\<close>, \<open>alpha_max = 1\<close> and
  \<open>Tg = 0.05\<close> the coefficient at \<open>Tg\<close> is \<open>0.45 + 10 * 0.55 * 0.05 = 0.725\<close>, while
  \<open>eta2 * alpha_max = 1\<close>.
\<close>

theorem C3_plateau_counterexample:
  "spectrum_coefficient 0.05 0.05 1 0.05 GRAVITY_ACCEL = Inr 0.725 \<and>
   eta2 0.05 * 1 = 1"
  by (simp add: spectrum_coefficient_def china_response_spectrum_def current_alpha_coeff_def
      branch_alpha_coeff_def eta2_def GRAVITY_ACCEL_def)

text \<open>
  C3, amended: for a damping ratio \<open>zeta \<ge> 0\<close>, a peak coefficient \<open>alpha_max \<ge> 0\<close> and a
  characteristic period \<open>Tg \<ge> 0.1\<close> (and \<open>g\<close> other than 0), the coefficient is the returned
  value divided by \<open>g\<close> at every period; it is non-decreasing on \<open>[0, Tg]\<close> and
  non-increasing on \<open>[Tg, 6]\<close>; at \<open>T = Tg\<close> it equals \<open>eta2 * alpha_max\<close>, which is also its
  limit at \<open>Tg\<close> from the left and from the right (the right limit is that of the power-law
  branch).
\<close>

theorem C3_monotone_plateau:
  assumes "0 \<le> zeta" and "0.1 \<le> Tg" and "0 \<le> alpha_max" and "g \<noteq> 0"
  shows "(\<forall>T. spectrum_coefficient T zeta alpha_max Tg g
              = Inr (current_alpha_coeff T zeta alpha_max Tg)) \<and>
         (\<forall>T1 T2. 0 \<le> T1 \<and> T1 \<le> T2 \<and> T2 \<le> Tg \<longrightarrow>
            current_alpha_coeff T1 zeta alpha_max Tg \<le> current_alpha_coeff T2 zeta alpha_max Tg) \<and>
         (\<forall>T1 T2. Tg \<le> T1 \<and> T1 \<le> T2 \<and> T2 \<le> 6 \<longrightarrow>
            current_alpha_coeff T2 zeta alpha_max Tg \<le> current_alpha_coeff T1 zeta alpha_max Tg) \<and>
         current_alpha_coeff Tg zeta alpha_max Tg = eta2 zeta * alpha_max \<and>
         ((\<lambda>T. current_alpha_coeff T zeta alpha_max Tg) \<longlongrightarrow> eta2 zeta * alpha_max)
           (at_left Tg) \<and>
         ((\<lambda>T. current_alpha_coeff T zeta alpha_max Tg) \<longlongrightarrow> eta2 zeta * alpha_max)
           (at_right Tg)"
proof (intro conjI allI impI)
  fix T
  show "spectrum_coefficient T zeta alpha_max Tg g = Inr (current_alpha_coeff T zeta alpha_max Tg)"
    using assms(1,4) by (rule spectrum_coefficient_eq)
next
  fix T1 T2 :: real
  assume "0 \<le> T1 \<and> T1 \<le> T2 \<and> T2 \<le> Tg"
  then show "current_alpha_coeff T1 zeta alpha_max Tg \<le> current_alpha_coeff T2 zeta alpha_max Tg"
    using assms(2,3) by (intro coeff_mono_up) simp_all
next
  fix T1 T2 :: real
  assume "Tg \<le> T1 \<and> T1 \<le> T2 \<and> T2 \<le> 6"
  then show "current_alpha_coeff T2 zeta alpha_max Tg \<le> current_alpha_coeff T1 zeta alpha_max Tg"
    using assms(1,2,3) by (intro coeff_mono_down) simp_all
next
  show "current_alpha_coeff Tg zeta alpha_max Tg = eta2 zeta * alpha_max"
    using assms(2,3) by (rule coeff_at_Tg)
next
  show "((\<lambda>T. current_alpha_coeff T zeta alpha_max Tg) \<longlongrightarrow> eta2 zeta * alpha_max)
          (at_left Tg)"
    using assms(2,3) by (rule coeff_left_limit)
next
  show "((\<lambda>T. current_alpha_coeff T zeta alpha_max Tg) \<longlongrightarrow> eta2 zeta * alpha_max)
          (at_right Tg)"
    using assms(2,3) by (rule coeff_right_limit)
qed

theorem C3_monotone_plateau_witness:
  "(0 :: real) \<le> 0.05 \<and> (0.1 :: real) \<le> 0.65 \<and> (0 :: real) \<le> 0.08 \<and> GRAVITY_ACCEL \<noteq> 0 \<and>
   spectrum_coefficient 0.65 0.05 0.08 0.65 GRAVITY_ACCEL = Inr 0.08 \<and>
   current_alpha_coeff 0.05 0.05 0.08 0.65 \<le> current_alpha_coeff 0.3 0.05 0.08 0.65 \<and>
   current_alpha_coeff 2 0.05 0.08 0.65 \<le> current_alpha_coeff 1 0.05 0.08 0.65 \<and>
   current_alpha_coeff 0.65 0.05 0.08 0.65 = eta2 0.05 * 0.08"
proof -
  have h: "(0 :: real) \<le> 0.05" "(0.1 :: real) \<le> 0.65" "(0 :: real) \<le> 0.08" "GRAVITY_ACCEL \<noteq> 0"
    by (simp_all add: GRAVITY_ACCEL_def)
  note t = C3_monotone_plateau [OF h]
  have e: "eta2 0.05 * 0.08 = 0.08" by (simp add: eta2_def)
  have up: "current_alpha_coeff 0.05 0.05 0.08 0.65 \<le> current_alpha_coeff 0.3 0.05 0.08 0.65"
    using t by simp
  have down: "current_alpha_coeff 2 0.05 0.08 0.65 \<le> current_alpha_coeff 1 0.05 0.08 0.65"
    using t by simp
  have at: "current_alpha_coeff 0.65 0.05 0.08 0.65 = eta2 0.05 * 0.08"
    using t by simp
  have sc: "spectrum_coefficient 0.65 0.05 0.08 0.65 GRAVITY_ACCEL = Inr 0.08"
    using t at e by simp
  show ?thesis using h up down at sc by simp
qed

section \<open>The return-code gate\<close>

text \<open>
  C4: with the \<open>System\<close> module loaded and the default ok-codes \<open>(0,)\<close>, \<open>check_ret\<close> called
  with a function name that contains \<open>SetWall\<close> returns the code 1, given as a bare integer
  or as the first element of a tuple, and does not exit; with the code 2, bare or first in
  a tuple, the same call exits the process.
\<close>

theorem C4_check_ret_SetWall:
  assumes "sublist ''SetWall'' func_name"
  shows "check_ret True (PyInt 1) func_name [0] = Inr (PyInt 1) \<and>
         check_ret True (PyTuple (PyInt 1 # rest)) func_name [0] = Inr (PyInt 1) \<and>
         check_ret True (PyInt 2) func_name [0] = Inl SystemExit \<and>
         check_ret True (PyTuple (PyInt 2 # rest)) func_name [0] = Inl SystemExit"
  using assms by (simp add: check_ret_def benign_keywords_def)

theorem C4_check_ret_SetWall_witness:
  "sublist ''SetWall'' ''PropArea.SetWall(Wall-200)'' \<and>
   check_ret True (PyInt 1) ''PropArea.SetWall(Wall-200)'' [0] = Inr (PyInt 1) \<and>
   check_ret True (PyTuple [PyInt 1, PyStr ''W'']) ''PropArea.SetWall(Wall-200)'' [0]
     = Inr (PyInt 1) \<and>
   check_ret True (PyInt 2) ''PropArea.SetWall(Wall-200)'' [0] = Inl SystemExit \<and>
   check_ret True (PyTuple [PyInt 2, PyStr ''W'']) ''PropArea.SetWall(Wall-200)'' [0]
     = Inl SystemExit"
proof -
  have h: "sublist ''SetWall'' ''PropArea.SetWall(Wall-200)''"
    by code_simp
  show ?thesis
    using h C4_check_ret_SetWall [OF h, of "[PyStr ''W'']"] by simp
qed

section \<open>Story drifts\<close>

subsection \<open>The loop as a fold per axis\<close>

lemma drift_loop_ok:
  assumes "\<forall>i \<in> set js. in_range r i"
  shows "drift_loop r js st = Inr (fst st @ map (make_record r) js, fold (update_max r) js (snd st))"
  using assms
proof (induction js arbitrary: st)
  case Nil
  then show ?case by simp
next
  case (Cons i js)
  then show ?case by (simp add: drift_step_def)
qed

lemma update_max_axis:
  "update_max r i md axis = map_option (axis_step r axis i) (md axis)"
proof (cases "direction_key (direction_list r ! i) = axis")
  case True
  then show ?thesis
    by (cases "md axis") (auto simp: update_max_def axis_step_def Let_def)
next
  case False
  then show ?thesis
    by (cases "md axis"; cases "md (direction_key (direction_list r ! i))")
       (auto simp: update_max_def axis_step_def Let_def)
qed

lemma fold_update_max_axis:
  "fold (update_max r) js md axis = map_option (fold (axis_step r axis) js) (md axis)"
proof (induction js arbitrary: md)
  case Nil
  then show ?case by (simp add: option.map_ident)
next
  case (Cons i js)
  then show ?case by (simp add: update_max_axis option.map_comp comp_def)
qed

lemma fold_axis_step:
  assumes "fold (axis_step r axis) js (v0, idx0) = (v, idx)"
  shows "\<bar>v0\<bar> \<le> \<bar>v\<bar> \<and>
         (\<forall>j \<in> set js. direction_key (direction_list r ! j) = axis \<longrightarrow> \<bar>drift_permil r j\<bar> \<le> \<bar>v\<bar>) \<and>
         ((v = v0 \<and> idx = idx0) \<or>
          (\<exists>i \<in> set js. idx = Some i \<and> direction_key (direction_list r ! i) = axis \<and>
              v = drift_permil r i \<and> \<bar>v0\<bar> < \<bar>v\<bar>))"
  using assms
proof (induction js arbitrary: v0 idx0)
  case Nil
  then show ?case by simp
next
  case (Cons i js)
  obtain v1 idx1 where s: "axis_step r axis i (v0, idx0) = (v1, idx1)"
    by (cases "axis_step r axis i (v0, idx0)")
  with Cons.prems have f: "fold (axis_step r axis) js (v1, idx1) = (v, idx)" by simp
  note ih = Cons.IH [OF f]
  show ?case
  proof (cases "direction_key (direction_list r ! i) = axis \<and> \<bar>drift_permil r i\<bar> > \<bar>v0\<bar>")
    case True
    then have e: "v1 = drift_permil r i" "idx1 = Some i"
      using s by (auto simp: axis_step_def split: if_splits)
    show ?thesis using ih True e by auto
  next
    case False
    then have e: "v1 = v0" "idx1 = idx0" using s by (auto simp: axis_step_def split: if_splits)
    show ?thesis using ih False e by auto
  qed
qed

lemma axis_best_props:
  assumes "axis_best r axis = (v, idx)"
  shows "(\<forall>j < nat (num_results r). direction_key (direction_list r ! j) = axis \<longrightarrow>
            \<bar>drift_permil r j\<bar> \<le> \<bar>v\<bar>) \<and>
         ((v = 0 \<and> idx = None) \<or>
          (\<exists>i < nat (num_results r). idx = Some i \<and> direction_key (direction_list r ! i) = axis \<and>
              v = drift_permil r i \<and> v \<noteq> 0))"
  using fold_axis_step [OF assms [unfolded axis_best_def]] by auto


lemma axis_summary_eq:
  assumes "axis = ''X'' \<or> axis = ''Y''"
  shows "axis_summary permitted (map (make_record r) [0 ..< nat (num_results r)])
           (fold (update_max r) [0 ..< nat (num_results r)]
              [''X'' \<mapsto> (0, None), ''Y'' \<mapsto> (0, None)]) axis
         = Inr (axis_info permitted r axis)"
proof -
  let ?n = "nat (num_results r)"
  let ?md = "fold (update_max r) [0 ..< ?n] [''X'' \<mapsto> (0, None), ''Y'' \<mapsto> (0, None)]"
  obtain v idx where b: "axis_best r axis = (v, idx)" by (cases "axis_best r axis")
  have md: "?md axis = Some (v, idx)"
    using assms b by (auto simp: fold_update_max_axis axis_best_def)
  note p = axis_best_props [OF b]
  show ?thesis
  proof (cases idx)
    case None
    then show ?thesis using md b by (simp add: axis_summary_def axis_info_def)
  next
    case (Some i)
    with p have i: "i < ?n" and v: "v \<noteq> 0" by auto
    then show ?thesis
      using md b Some by (simp add: axis_summary_def axis_info_def make_record_def Let_def)
  qed
qed

lemma extract_story_drifts_eq:
  assumes "well_formed r" and "num_results r \<noteq> 0"
  shows "extract_story_drifts permitted cases r =
           Inr \<lparr> records = map (make_record r) [0 ..< nat (num_results r)],
                 total_records = Some (num_results r),
                 load_cases = Some cases,
                 limit_permil = permitted,
                 max_drift_X = axis_info permitted r ''X'',
                 max_drift_Y = axis_info permitted r ''Y'',
                 error_no_data = False,
                 overall_status =
                   Some (if all_ok [axis_info permitted r ''X'', axis_info permitted r ''Y'']
                         then MEETS_CODE else EXCEEDS_LIMIT) \<rparr>"
proof -
  have "\<forall>i \<in> set [0 ..< nat (num_results r)]. in_range r i"
    using assms(1) by (simp add: well_formed_def list_all_iff)
  then have loop: "drift_loop r [0 ..< nat (num_results r)]
               ([], [''X'' \<mapsto> (0, None), ''Y'' \<mapsto> (0, None)])
             = Inr (map (make_record r) [0 ..< nat (num_results r)],
                    fold (update_max r) [0 ..< nat (num_results r)]
                      [''X'' \<mapsto> (0, None), ''Y'' \<mapsto> (0, None)])"
    by (simp add: drift_loop_ok)
  have ax: "axis_summary permitted (map (make_record r) [0 ..< nat (num_results r)])
           (fold (update_max r) [0 ..< nat (num_results r)]
              [''X'' \<mapsto> (0, None), ''Y'' \<mapsto> (0, None)]) ''X''
         = Inr (axis_info permitted r ''X'')"
    by (rule axis_summary_eq) simp
  have ay: "axis_summary permitted (map (make_record r) [0 ..< nat (num_results r)])
           (fold (update_max r) [0 ..< nat (num_results r)]
              [''X'' \<mapsto> (0, None), ''Y'' \<mapsto> (0, None)]) ''Y''
         = Inr (axis_info permitted r ''Y'')"
    by (rule axis_summary_eq) simp
  show ?thesis
    using assms(2) by (simp add: extract_story_drifts_def loop ax ay)
qed

lemma axis_info_Some:
  assumes "axis_info permitted r axis = Some m"
  shows "\<exists>i < nat (num_results r).
           direction_key (direction_list r ! i) = axis \<and>
           value_permil m = drift_list r ! i * 1000 \<and>
           abs_value_permil m = \<bar>drift_list r ! i * 1000\<bar> \<and>
           info_story m = story_list r ! i \<and>
           info_load_case m = case_list r ! i \<and>
           (\<forall>j < nat (num_results r). direction_key (direction_list r ! j) = axis \<longrightarrow>
              \<bar>drift_list r ! j * 1000\<bar> \<le> abs_value_permil m)"
proof -
  obtain v idx where b: "axis_best r axis = (v, idx)" by (cases "axis_best r axis")
  note p = axis_best_props [OF b]
  from assms b obtain i where i: "idx = Some i" and v: "v \<noteq> 0"
    and m: "m = \<lparr> value_permil = v, abs_value_permil = \<bar>v\<bar>,
                  info_story = story_list r ! i, info_load_case = case_list r ! i,
                  is_ok = (\<bar>v\<bar> \<le> permitted), info_limit_permil = permitted \<rparr>"
    by (cases idx) (auto simp: axis_info_def split: if_splits)
  from p i have "i < nat (num_results r)" "direction_key (direction_list r ! i) = axis"
    "v = drift_permil r i" by auto
  then show ?thesis using p m by (auto simp: drift_permil_def)
qed

lemma axis_info_is_ok:
  assumes "axis_info permitted r axis = Some m"
  shows "is_ok m \<longleftrightarrow> abs_value_permil m \<le> permitted"
proof -
  obtain v idx where b: "axis_best r axis = (v, idx)" by (cases "axis_best r axis")
  show ?thesis
    using assms b by (cases idx) (auto simp: axis_info_def split: if_splits)
qed

lemma axis_info_None:
  assumes "\<forall>i < nat (num_results r). direction_key (direction_list r ! i) = axis \<longrightarrow>
             drift_list r ! i = 0"
  shows "axis_info permitted r axis = None"
proof -
  obtain v idx where b: "axis_best r axis = (v, idx)" by (cases "axis_best r axis")
  note p = axis_best_props [OF b]
  have "idx = None"
  proof (rule ccontr)
    assume "idx \<noteq> None"
    with p obtain i where "i < nat (num_results r)" "direction_key (direction_list r ! i) = axis"
      "v = drift_permil r i" "v \<noteq> 0" by auto
    with assms show False by (auto simp: drift_permil_def)
  qed
  then show ?thesis using b by (simp add: axis_info_def)
qed

lemma axis_info_None_iff:
  "axis_info permitted r axis = None \<longleftrightarrow>
     (\<forall>i < nat (num_results r). direction_key (direction_list r ! i) = axis \<longrightarrow>
        drift_list r ! i = 0)"
proof
  assume none: "axis_info permitted r axis = None"
  obtain v idx where b: "axis_best r axis = (v, idx)" by (cases "axis_best r axis")
  note p = axis_best_props [OF b]
  have "v = 0"
  proof (cases idx)
    case None
    with p show ?thesis by auto
  next
    case (Some i)
    with none b show ?thesis by (simp add: axis_info_def split: if_splits)
  qed
  with p show "\<forall>i < nat (num_results r). direction_key (direction_list r ! i) = axis \<longrightarrow>
        drift_list r ! i = 0"
    by (auto simp: drift_permil_def)
next
  assume "\<forall>i < nat (num_results r). direction_key (direction_list r ! i) = axis \<longrightarrow>
        drift_list r ! i = 0"
  then show "axis_info permitted r axis = None" by (rule axis_info_None)
qed

lemma axis_step_cong:
  assumes "direction_key (direction_list r ! i) = direction_key (direction_list r' ! i)"
    and "direction_key (direction_list r ! i) = axis \<longrightarrow> drift_list r ! i = drift_list r' ! i"
  shows "axis_step r axis i = axis_step r' axis i"
  using assms by (auto simp: axis_step_def drift_permil_def fun_eq_iff)

lemma axis_info_cong:
  assumes n: "num_results r = num_results r'"
    and k: "\<forall>i < nat (num_results r).
          direction_key (direction_list r ! i) = direction_key (direction_list r' ! i)"
    and d: "\<forall>i < nat (num_results r). direction_key (direction_list r ! i) = axis \<longrightarrow>
          drift_list r ! i = drift_list r' ! i \<and> story_list r ! i = story_list r' ! i \<and>
          case_list r ! i = case_list r' ! i"
  shows "axis_info permitted r axis = axis_info permitted r' axis"
proof -
  have "fold (axis_step r axis) [0 ..< nat (num_results r)] (0, None)
      = fold (axis_step r' axis) [0 ..< nat (num_results r)] (0, None)"
    using k d by (intro fold_cong refl axis_step_cong) auto
  then have e: "axis_best r axis = axis_best r' axis"
    using n by (simp add: axis_best_def)
  obtain v idx where b: "axis_best r axis = (v, idx)" by (cases "axis_best r axis")
  note p = axis_best_props [OF b]
  show ?thesis
  proof (cases idx)
    case None
    then show ?thesis using b e by (simp add: axis_info_def)
  next
    case (Some i)
    with p have "i < nat (num_results r)" "direction_key (direction_list r ! i) = axis" by auto
    with d have "story_list r ! i = story_list r' ! i" "case_list r ! i = case_list r' ! i" by auto
    then show ?thesis using b e Some by (simp add: axis_info_def)
  qed
qed

lemma same_known_rows_axis_info:
  assumes "same_known_rows r r'" and "axis = ''X'' \<or> axis = ''Y''"
  shows "axis_info permitted r axis = axis_info permitted r' axis"
proof (rule axis_info_cong)
  show "num_results r = num_results r'"
    using assms(1) by (simp add: same_known_rows_def)
next
  show "\<forall>i < nat (num_results r).
          direction_key (direction_list r ! i) = direction_key (direction_list r' ! i)"
    using assms(1) by (simp add: same_known_rows_def list_all_iff)
next
  show "\<forall>i < nat (num_results r). direction_key (direction_list r ! i) = axis \<longrightarrow>
          drift_list r ! i = drift_list r' ! i \<and> story_list r ! i = story_list r' ! i \<and>
          case_list r ! i = case_list r' ! i"
    using assms by (auto simp: same_known_rows_def list_all_iff known_direction_def)
qed

lemma no_known_drift_axis_info:
  assumes "no_known_drift r" and "axis = ''X'' \<or> axis = ''Y''"
  shows "axis_info permitted r axis = None"
proof (rule axis_info_None)
  show "\<forall>i < nat (num_results r). direction_key (direction_list r ! i) = axis \<longrightarrow>
          drift_list r ! i = 0"
    using assms by (auto simp: no_known_drift_def list_all_iff known_direction_def)
qed

lemma extract_story_drifts_empty:
  assumes "num_results r = 0"
  shows "extract_story_drifts permitted cases r =
           Inr \<lparr> records = [], total_records = None, load_cases = None,
                 limit_permil = permitted, max_drift_X = None, max_drift_Y = None,
                 error_no_data = True, overall_status = None \<rparr>"
  using assms by (simp add: extract_story_drifts_def)

subsection \<open>Evaluation on small inputs\<close>

lemma upt_2: "[0 ..< (2 :: nat)] = [0, 1]"
  by (simp add: upt_rec)

lemma upt_3: "[0 ..< (3 :: nat)] = [0, 1, 2]"
  by (simp add: upt_rec)

lemma direction_key_X: "direction_key ''X'' = ''X''"
  by (simp add: direction_key_def py_strip_def py_upper_def py_upper_char_def py_isspace_def)

lemma direction_key_Y: "direction_key ''Y'' = ''Y''"
  by (simp add: direction_key_def py_strip_def py_upper_def py_upper_char_def py_isspace_def)

text \<open>
  A token with white space around it is normalised as the token itself; the white space
  may be the no-break space (code point 160) or the next-line character (code point 133).
\<close>

lemma direction_key_no_break_space:
  "direction_key [CHR ''x'', CHR 0xA0] = ''X''"
  "direction_key [CHR 0x85, CHR ''u'', CHR ''2'', CHR 0x20] = ''Y''"
  by (simp_all add: direction_key_def py_strip_def py_upper_def py_upper_char_def py_isspace_def)

subsection \<open>Claims on the story drifts\<close>

text \<open>
  C5: when every list has an entry for each record and the number of records is not 0,
  \<open>extract_story_drifts\<close> returns. Each record keeps the raw drift in radians and reports it
  in per mille as the raw value times 1000 (rounded to four decimals in the record). The
  maximum of a direction, when there is one, is the raw drift of a record of that direction
  times 1000, its absolute value is the greatest among the records of that direction, and
  it is classified as compliant exactly when the absolute per-mille value does not exceed
  the permissible limit. A direction has a maximum exactly when one of its records has a
  drift other than 0. In the example below, with the limit 1.0, the raw drift 0.0012
  becomes 1.2 and is not compliant, and 0.0008 becomes 0.8 and is compliant.
\<close>

theorem C5_drift_permil_limit:
  assumes "well_formed r" and "num_results r \<noteq> 0"
  shows "\<exists>res. extract_story_drifts permitted cases r = Inr res \<and>
           length (records res) = nat (num_results r) \<and>
           (\<forall>i < nat (num_results r).
              rec_drift_rad (records res ! i) = drift_list r ! i \<and>
              rec_drift_permil (records res ! i) = py_round (drift_list r ! i * 1000) 4) \<and>
           (\<forall>axis m. (axis = ''X'' \<and> max_drift_X res = Some m \<or>
                      axis = ''Y'' \<and> max_drift_Y res = Some m) \<longrightarrow>
              (\<exists>i < nat (num_results r).
                 direction_key (direction_list r ! i) = axis \<and>
                 value_permil m = drift_list r ! i * 1000 \<and>
                 abs_value_permil m = \<bar>drift_list r ! i * 1000\<bar> \<and>
                 (\<forall>j < nat (num_results r). direction_key (direction_list r ! j) = axis \<longrightarrow>
                    \<bar>drift_list r ! j * 1000\<bar> \<le> abs_value_permil m)) \<and>
              (is_ok m \<longleftrightarrow> abs_value_permil m \<le> permitted)) \<and>
           (max_drift_X res = None \<longleftrightarrow>
              (\<forall>i < nat (num_results r). direction_key (direction_list r ! i) = ''X'' \<longrightarrow>
                 drift_list r ! i = 0)) \<and>
           (max_drift_Y res = None \<longleftrightarrow>
              (\<forall>i < nat (num_results r). direction_key (direction_list r ! i) = ''Y'' \<longrightarrow>
                 drift_list r ! i = 0))"
proof -
  let ?n = "nat (num_results r)"
  define res where "res =
     \<lparr> records = map (make_record r) [0 ..< ?n],
       total_records = Some (num_results r),
       load_cases = Some cases,
       limit_permil = permitted,
       max_drift_X = axis_info permitted r ''X'',
       max_drift_Y = axis_info permitted r ''Y'',
       error_no_data = False,
       overall_status =
         Some (if all_ok [axis_info permitted r ''X'', axis_info permitted r ''Y'']
               then MEETS_CODE else EXCEEDS_LIMIT) \<rparr>"
  have e: "extract_story_drifts permitted cases r = Inr res"
    unfolding res_def using assms by (rule extract_story_drifts_eq)
  have len: "length (records res) = ?n" by (simp add: res_def)
  have recs: "\<forall>i < ?n. rec_drift_rad (records res ! i) = drift_list r ! i \<and>
                rec_drift_permil (records res ! i) = py_round (drift_list r ! i * 1000) 4"
    by (simp add: res_def make_record_def drift_permil_def)
  have ax: "(\<exists>i < ?n. direction_key (direction_list r ! i) = axis \<and>
                 value_permil m = drift_list r ! i * 1000 \<and>
                 abs_value_permil m = \<bar>drift_list r ! i * 1000\<bar> \<and>
                 (\<forall>j < ?n. direction_key (direction_list r ! j) = axis \<longrightarrow>
                    \<bar>drift_list r ! j * 1000\<bar> \<le> abs_value_permil m)) \<and>
              (is_ok m \<longleftrightarrow> abs_value_permil m \<le> permitted)"
    if "axis = ''X'' \<and> max_drift_X res = Some m \<or> axis = ''Y'' \<and> max_drift_Y res = Some m"
    for axis m
  proof -
    from that have a: "axis_info permitted r axis = Some m" by (auto simp: res_def)
    from axis_info_Some [OF a] axis_info_is_ok [OF a] show ?thesis by blast
  qed
  have nx: "max_drift_X res = None \<longleftrightarrow>
              (\<forall>i < ?n. direction_key (direction_list r ! i) = ''X'' \<longrightarrow> drift_list r ! i = 0)"
    by (simp add: res_def axis_info_None_iff)
  have ny: "max_drift_Y res = None \<longleftrightarrow>
              (\<forall>i < ?n. direction_key (direction_list r ! i) = ''Y'' \<longrightarrow> drift_list r ! i = 0)"
    by (simp add: res_def axis_info_None_iff)
  have axs: "\<forall>axis m. (axis = ''X'' \<and> max_drift_X res = Some m \<or>
                      axis = ''Y'' \<and> max_drift_Y res = Some m) \<longrightarrow>
              (\<exists>i < ?n.
                 direction_key (direction_list r ! i) = axis \<and>
                 value_permil m = drift_list r ! i * 1000 \<and>
                 abs_value_permil m = \<bar>drift_list r ! i * 1000\<bar> \<and>
                 (\<forall>j < ?n. direction_key (direction_list r ! j) = axis \<longrightarrow>
                    \<bar>drift_list r ! j * 1000\<bar> \<le> abs_value_permil m)) \<and>
              (is_ok m \<longleftrightarrow> abs_value_permil m \<le> permitted)"
    using ax by blast
  show ?thesis
    by (intro exI [of _ res] conjI) (rule e len recs axs nx ny)+
qed

theorem C5_drift_permil_limit_witness:
  "well_formed drifts_two_rows \<and> num_results drifts_two_rows \<noteq> 0 \<and>
   (\<exists>res. extract_story_drifts 1.0 [''RS-X'', ''RS-Y''] drifts_two_rows = Inr res \<and>
      map rec_drift_rad (records res) = [0.0012, 0.0008] \<and>
      map rec_drift_permil (records res) = [1.2, 0.8] \<and>
      map_option abs_value_permil (max_drift_X res) = Some 1.2 \<and>
      map_option is_ok (max_drift_X res) = Some False \<and>
      map_option abs_value_permil (max_drift_Y res) = Some 0.8 \<and>
      map_option is_ok (max_drift_Y res) = Some True \<and>
      overall_status res = Some EXCEEDS_LIMIT)"
proof -
  have wf: "well_formed drifts_two_rows"
    by (simp add: well_formed_def drifts_two_rows_def upt_2 in_range_def)
  have nz: "num_results drifts_two_rows \<noteq> 0"
    by (simp add: drifts_two_rows_def)
  from C5_drift_permil_limit [OF wf nz, of 1 "[''RS-X'', ''RS-Y'']"]
  obtain res where e: "extract_story_drifts 1 [''RS-X'', ''RS-Y''] drifts_two_rows = Inr res"
    by blast
  have bx: "axis_best drifts_two_rows ''X'' = (12 / 10, Some 0)"
    by (simp add: axis_best_def drifts_two_rows_def upt_2 axis_step_def drift_permil_def
        direction_key_X direction_key_Y)
  have by': "axis_best drifts_two_rows ''Y'' = (8 / 10, Some 1)"
    by (simp add: axis_best_def drifts_two_rows_def upt_2 axis_step_def drift_permil_def
        direction_key_X direction_key_Y)
  have ix: "axis_info 1 drifts_two_rows ''X'' = Some \<lparr> value_permil = 12 / 10,
      abs_value_permil = 12 / 10, info_story = ''Story2'', info_load_case = ''RS-X'',
      is_ok = False, info_limit_permil = 1 \<rparr>"
    by (simp add: axis_info_def bx) (simp add: drifts_two_rows_def)
  have iy: "axis_info 1 drifts_two_rows ''Y'' = Some \<lparr> value_permil = 8 / 10,
      abs_value_permil = 8 / 10, info_story = ''Story1'', info_load_case = ''RS-Y'',
      is_ok = True, info_limit_permil = 1 \<rparr>"
    by (simp add: axis_info_def by') (simp add: drifts_two_rows_def)
  have r1: "py_round (6 / 5) 4 = 6 / 5" by (simp add: py_round_def Let_def)
  have r2: "py_round (4 / 5) 4 = 4 / 5" by (simp add: py_round_def Let_def)
  have recs: "map (make_record drifts_two_rows) [0 ..< nat (num_results drifts_two_rows)]
      = [make_record drifts_two_rows 0, make_record drifts_two_rows 1]"
    by (simp add: drifts_two_rows_def upt_2)
  have m0: "rec_drift_permil (make_record drifts_two_rows 0) = 12 / 10"
    "rec_drift_rad (make_record drifts_two_rows 0) = 12 / 10000"
    by (simp_all add: make_record_def drift_permil_def drifts_two_rows_def r1)
  have m1: "rec_drift_permil (make_record drifts_two_rows (Suc 0)) = 8 / 10"
    "rec_drift_rad (make_record drifts_two_rows (Suc 0)) = 8 / 10000"
    by (simp_all add: make_record_def drift_permil_def drifts_two_rows_def r2)
  have "res = \<lparr> records = [make_record drifts_two_rows 0, make_record drifts_two_rows 1],
       total_records = Some (num_results drifts_two_rows),
       load_cases = Some [''RS-X'', ''RS-Y''],
       limit_permil = 1,
       max_drift_X = axis_info 1 drifts_two_rows ''X'',
       max_drift_Y = axis_info 1 drifts_two_rows ''Y'',
       error_no_data = False,
       overall_status = Some EXCEEDS_LIMIT \<rparr>"
    using e extract_story_drifts_eq [OF wf nz, of 1 "[''RS-X'', ''RS-Y'']"]
    by (simp add: recs ix iy all_ok_def)
  then show ?thesis
    using wf nz e by (simp add: ix iy m0 m1)
qed

text \<open>
  C10: take two well-formed data sets that have the same number of records, give each
  record the same direction key, and agree on the drift, story and load case of every
  record whose direction is normalised to \<open>X\<close> or \<open>Y\<close>; the records of unknown direction
  may differ in any way. Then \<open>extract_story_drifts\<close> returns for both, with the same
  \<open>max_drift_X\<close>, the same \<open>max_drift_Y\<close> and the same \<open>overall_status\<close>. Moreover, when the
  number of records is not 0 and no record of direction \<open>X\<close> or \<open>Y\<close> has a drift other than
  0, both maxima are \<open>None\<close> and \<open>overall_status\<close> is the passing value.
\<close>

theorem C10_unknown_direction_ignored:
  assumes "well_formed r" and "well_formed r'" and "same_known_rows r r'"
  shows "\<exists>res res'. extract_story_drifts permitted cases r = Inr res \<and>
           extract_story_drifts permitted cases r' = Inr res' \<and>
           max_drift_X res = max_drift_X res' \<and>
           max_drift_Y res = max_drift_Y res' \<and>
           overall_status res = overall_status res' \<and>
           (num_results r \<noteq> 0 \<and> no_known_drift r \<longrightarrow>
              max_drift_X res = None \<and> max_drift_Y res = None \<and>
              overall_status res = Some MEETS_CODE)"
proof (cases "num_results r = 0")
  case True
  then have "num_results r' = 0"
    using assms(3) by (simp add: same_known_rows_def)
  with True show ?thesis
    by (simp add: extract_story_drifts_empty)
next
  case False
  then have nz': "num_results r' \<noteq> 0"
    using assms(3) by (simp add: same_known_rows_def)
  have x: "axis_info permitted r ''X'' = axis_info permitted r' ''X''"
    using assms(3) by (rule same_known_rows_axis_info) simp
  have y: "axis_info permitted r ''Y'' = axis_info permitted r' ''Y''"
    using assms(3) by (rule same_known_rows_axis_info) simp
  have z: "axis_info permitted r ''X'' = None \<and> axis_info permitted r ''Y'' = None"
    if "no_known_drift r"
    using that by (simp add: no_known_drift_axis_info)
  show ?thesis
    using x y z
    by (auto simp: extract_story_drifts_eq [OF assms(1) False]
        extract_story_drifts_eq [OF assms(2) nz'] all_ok_def)
qed

theorem C10_unknown_direction_ignored_witness:
  "well_formed (drifts_unknown_row 0.5 ''Story2'') \<and>
   well_formed (drifts_unknown_row (- 0.9) ''Roof'') \<and>
   same_known_rows (drifts_unknown_row 0.5 ''Story2'') (drifts_unknown_row (- 0.9) ''Roof'') \<and>
   (\<exists>res res'.
      extract_story_drifts 1.0 [''RS-X'', ''RS-Y''] (drifts_unknown_row 0.5 ''Story2'') = Inr res \<and>
      extract_story_drifts 1.0 [''RS-X'', ''RS-Y''] (drifts_unknown_row (- 0.9) ''Roof'') = Inr res' \<and>
      max_drift_X res = max_drift_X res' \<and>
      max_drift_Y res = max_drift_Y res' \<and>
      overall_status res = overall_status res') \<and>
   well_formed drifts_no_known \<and> num_results drifts_no_known \<noteq> 0 \<and>
   no_known_drift drifts_no_known \<and>
   (\<exists>res. extract_story_drifts 1.0 [''RS-X''] drifts_no_known = Inr res \<and>
      max_drift_X res = None \<and> max_drift_Y res = None \<and>
      overall_status res = Some MEETS_CODE)"
proof -
  have k: "direction_key ''u1'' = ''X''" "direction_key ''RZ'' = ''?''"
    "direction_key '' UY '' = ''Y''" "direction_key ''X'' = ''X''"
    by (simp_all add: direction_key_def py_strip_def py_upper_def py_upper_char_def
        py_isspace_def)
  have u3: "[0 ..< (3 :: nat)] = [0, 1, 2]" and u2: "[0 ..< (2 :: nat)] = [0, 1]"
    by (simp_all add: upt_rec)
  have wf: "well_formed (drifts_unknown_row d s)" for d s
    by (simp add: well_formed_def drifts_unknown_row_def u3 in_range_def)
  have same: "same_known_rows (drifts_unknown_row 0.5 ''Story2'')
                (drifts_unknown_row (- 0.9) ''Roof'')"
    by (simp add: same_known_rows_def known_direction_def drifts_unknown_row_def u3 k)
  have wfz: "well_formed drifts_no_known"
    by (simp add: well_formed_def drifts_no_known_def u2 in_range_def)
  have samez: "same_known_rows drifts_no_known drifts_no_known"
    by (simp add: same_known_rows_def list_all_iff)
  have nz: "num_results drifts_no_known \<noteq> 0"
    by (simp add: drifts_no_known_def)
  have nk: "no_known_drift drifts_no_known"
    by (simp add: no_known_drift_def known_direction_def drifts_no_known_def u2 k)
  note a = C10_unknown_direction_ignored [OF wf wf same, of 1 "[''RS-X'', ''RS-Y'']"]
  note b = C10_unknown_direction_ignored [OF wfz wfz samez, of 1 "[''RS-X'']"]
  have a': "\<exists>res res'.
      extract_story_drifts 1 [''RS-X'', ''RS-Y''] (drifts_unknown_row 0.5 ''Story2'') = Inr res \<and>
      extract_story_drifts 1 [''RS-X'', ''RS-Y''] (drifts_unknown_row (- 0.9) ''Roof'') = Inr res' \<and>
      max_drift_X res = max_drift_X res' \<and>
      max_drift_Y res = max_drift_Y res' \<and>
      overall_status res = overall_status res'"
    using a by blast
  have b': "\<exists>res. extract_story_drifts 1 [''RS-X''] drifts_no_known = Inr res \<and>
      max_drift_X res = None \<and> max_drift_Y res = None \<and>
      overall_status res = Some MEETS_CODE"
    using b nz nk by auto
  show ?thesis
    using wf same wfz nz nk a' b' by simp
qed

section \<open>The planar layout of the shear walls\<close>

subsection \<open>Lists built from blocks of equal length\<close>

lemma map_enumerate:
  "map (\<lambda>(i, x). f i x) (enumerate 0 xs) = map (\<lambda>i. f i (xs ! i)) [0 ..< length xs]"
  by (rule nth_equalityI) (simp_all add: nth_enumerate_eq)

lemma length_concat_blocks:
  assumes "\<forall>i < n. length (f i) = b"
  shows "length (concat (map f [0 ..< n])) = n * b"
  using assms by (induction n) simp_all

lemma nth_concat_blocks:
  assumes "\<forall>i < n. length (f i) = b" and "i < n" and "j < b"
  shows "concat (map f [0 ..< n]) ! (i * b + j) = f i ! j"
  using assms
proof (induction n)
  case 0
  then show ?case by simp
next
  case (Suc n)
  have len: "length (concat (map f [0 ..< n])) = n * b"
    using Suc.prems(1) by (intro length_concat_blocks) simp
  show ?case
  proof (cases "i < n")
    case True
    then have "Suc i \<le> n" by simp
    then have "Suc i * b \<le> n * b" by (rule mult_le_mono1)
    then have "i * b + j < n * b" using Suc.prems(3) by simp
    then show ?thesis
      using Suc True by (simp add: nth_append len)
  next
    case False
    then have "i = n" using Suc.prems(2) by simp
    then show ?thesis by (simp add: nth_append len)
  qed
qed

lemma grid_x_nth:
  "i < nat (NUM_GRID_LINES_X cfg) \<Longrightarrow>
     fst (generate_grid_coordinates cfg) ! i = of_nat i * SPACING_X cfg"
  by (simp add: generate_grid_coordinates_def)

lemma grid_y_nth:
  "i < nat (NUM_GRID_LINES_Y cfg) \<Longrightarrow>
     snd (generate_grid_coordinates cfg) ! i = of_nat i * SPACING_Y cfg"
  by (simp add: generate_grid_coordinates_def)

lemma layout_blocks:
  "generate_shear_wall_planar_layout cfg =
     concat (map (\<lambda>iy. concat (map (horizontal_elements cfg (fst (generate_grid_coordinates cfg)) iy
                                       (snd (generate_grid_coordinates cfg) ! iy))
                              [0 ..< nat (NUM_GRID_LINES_X cfg - 1)]))
               [0 ..< nat (NUM_GRID_LINES_Y cfg)]) @
     concat (map (\<lambda>ix. concat (map (vertical_elements cfg (snd (generate_grid_coordinates cfg)) ix
                                       (fst (generate_grid_coordinates cfg) ! ix))
                              [0 ..< nat (NUM_GRID_LINES_Y cfg - 1)]))
               [0 ..< nat (NUM_GRID_LINES_X cfg)])"
  by (simp add: generate_shear_wall_planar_layout_def map_enumerate split: prod.split)
     (simp add: generate_grid_coordinates_def)


lemma length_horizontal_elements [simp]: "length (horizontal_elements cfg gx iy y ix) = 3"
  by (simp add: horizontal_elements_def Let_def)

lemma length_vertical_elements [simp]: "length (vertical_elements cfg gy ix x iy) = 3"
  by (simp add: vertical_elements_def Let_def)

lemma layout_length:
  "length (generate_shear_wall_planar_layout cfg) =
     3 * (nat (NUM_GRID_LINES_Y cfg) * nat (NUM_GRID_LINES_X cfg - 1) +
          nat (NUM_GRID_LINES_X cfg) * nat (NUM_GRID_LINES_Y cfg - 1))"
proof -
  have h: "length (concat (map (\<lambda>iy. concat (map (horizontal_elements cfg gx iy (gy ! iy))
                              [0 ..< bx])) [0 ..< ny])) = ny * (bx * 3)" for gx gy bx ny
    by (intro length_concat_blocks allI impI) simp
  have v: "length (concat (map (\<lambda>ix. concat (map (vertical_elements cfg gy ix (gx ! ix))
                              [0 ..< by])) [0 ..< nx])) = nx * (by * 3)" for gx gy "by" nx
    by (intro length_concat_blocks allI impI) simp
  show ?thesis
    by (simp add: layout_blocks h v)
qed

lemma layout_horizontal_nth:
  assumes "ix < nat (NUM_GRID_LINES_X cfg - 1)" and "iy < nat (NUM_GRID_LINES_Y cfg)" and "j < 3"
  shows "generate_shear_wall_planar_layout cfg ! (3 * (iy * nat (NUM_GRID_LINES_X cfg - 1) + ix) + j)
         = horizontal_elements cfg (fst (generate_grid_coordinates cfg)) iy
             (snd (generate_grid_coordinates cfg) ! iy) ix ! j"
proof -
  let ?bx = "nat (NUM_GRID_LINES_X cfg - 1)"
  let ?ny = "nat (NUM_GRID_LINES_Y cfg)"
  let ?gx = "fst (generate_grid_coordinates cfg)"
  let ?gy = "snd (generate_grid_coordinates cfg)"
  let ?row = "\<lambda>iy. concat (map (horizontal_elements cfg ?gx iy (?gy ! iy)) [0 ..< ?bx])"
  have rowlen: "\<forall>iy < ?ny. length (?row iy) = ?bx * 3"
    by (intro allI impI length_concat_blocks) simp
  have len: "length (concat (map ?row [0 ..< ?ny])) = ?ny * (?bx * 3)"
    using rowlen by (rule length_concat_blocks)
  have inner: "ix * 3 + j < ?bx * 3"
    using assms(1,3) by simp
  have idx: "3 * (iy * ?bx + ix) + j = iy * (?bx * 3) + (ix * 3 + j)"
    by (simp add: algebra_simps)
  have "Suc iy * (?bx * 3) \<le> ?ny * (?bx * 3)"
    using assms(2) by (intro mult_le_mono1) simp
  then have lt: "iy * (?bx * 3) + (ix * 3 + j) < ?ny * (?bx * 3)"
    using inner by simp
  have "generate_shear_wall_planar_layout cfg ! (iy * (?bx * 3) + (ix * 3 + j))
      = concat (map ?row [0 ..< ?ny]) ! (iy * (?bx * 3) + (ix * 3 + j))"
    using lt by (simp add: layout_blocks nth_append len)
  also have "\<dots> = ?row iy ! (ix * 3 + j)"
    using rowlen assms(2) inner by (rule nth_concat_blocks)
  also have "\<dots> = horizontal_elements cfg ?gx iy (?gy ! iy) ix ! j"
    using assms(1,3) by (intro nth_concat_blocks) simp_all
  finally show ?thesis
    by (simp only: idx)
qed

lemma layout_vertical_nth:
  assumes "ix < nat (NUM_GRID_LINES_X cfg)" and "iy < nat (NUM_GRID_LINES_Y cfg - 1)" and "j < 3"
  shows "generate_shear_wall_planar_layout cfg !
           (3 * (nat (NUM_GRID_LINES_Y cfg) * nat (NUM_GRID_LINES_X cfg - 1)) +
            3 * (ix * nat (NUM_GRID_LINES_Y cfg - 1) + iy) + j)
         = vertical_elements cfg (snd (generate_grid_coordinates cfg)) ix
             (fst (generate_grid_coordinates cfg) ! ix) iy ! j"
proof -
  let ?bx = "nat (NUM_GRID_LINES_X cfg - 1)"
  let ?by = "nat (NUM_GRID_LINES_Y cfg - 1)"
  let ?nx = "nat (NUM_GRID_LINES_X cfg)"
  let ?ny = "nat (NUM_GRID_LINES_Y cfg)"
  let ?gx = "fst (generate_grid_coordinates cfg)"
  let ?gy = "snd (generate_grid_coordinates cfg)"
  let ?row = "\<lambda>iy. concat (map (horizontal_elements cfg ?gx iy (?gy ! iy)) [0 ..< ?bx])"
  let ?col = "\<lambda>ix. concat (map (vertical_elements cfg ?gy ix (?gx ! ix)) [0 ..< ?by])"
  have rowlen: "\<forall>iy < ?ny. length (?row iy) = ?bx * 3"
    by (intro allI impI length_concat_blocks) simp
  have len: "length (concat (map ?row [0 ..< ?ny])) = ?ny * (?bx * 3)"
    using rowlen by (rule length_concat_blocks)
  have collen: "\<forall>ix < ?nx. length (?col ix) = ?by * 3"
    by (intro allI impI length_concat_blocks) simp
  have inner: "iy * 3 + j < ?by * 3"
    using assms(2,3) by simp
  have idx: "3 * (?ny * ?bx) + 3 * (ix * ?by + iy) + j
           = ?ny * (?bx * 3) + (ix * (?by * 3) + (iy * 3 + j))"
    by (simp add: algebra_simps)
  have "generate_shear_wall_planar_layout cfg ! (?ny * (?bx * 3) + (ix * (?by * 3) + (iy * 3 + j)))
      = concat (map ?col [0 ..< ?nx]) ! (ix * (?by * 3) + (iy * 3 + j))"
    by (simp add: layout_blocks nth_append len)
  also have "\<dots> = ?col ix ! (iy * 3 + j)"
    using collen assms(1) inner by (rule nth_concat_blocks)
  also have "\<dots> = vertical_elements cfg ?gy ix (?gx ! ix) iy ! j"
    using assms(2,3) by (intro nth_concat_blocks) simp_all
  finally show ?thesis
    by (simp only: idx)
qed

lemma horizontal_elements_grid:
  assumes "ix < nat (NUM_GRID_LINES_X cfg - 1)" and "iy < nat (NUM_GRID_LINES_Y cfg)"
  shows "horizontal_elements cfg (fst (generate_grid_coordinates cfg)) iy
           (snd (generate_grid_coordinates cfg) ! iy) ix =
         [\<lparr> x_coords = [real ix * SPACING_X cfg, real ix * SPACING_X cfg + SPACING_X cfg / 3,
                        real ix * SPACING_X cfg + SPACING_X cfg / 3, real ix * SPACING_X cfg],
            y_coords = replicate 4 (real iy * SPACING_Y cfg),
            section_name = WALL_SECTION_NAME cfg,
            base_name_template = ''HWL_X'' @ str_nat ix @ ''_Y'' @ str_nat iy,
            is_coupling_beam = False,
            element_type_prefix = ''P'' \<rparr>,
          \<lparr> x_coords = [real ix * SPACING_X cfg + SPACING_X cfg / 3,
                        real ix * SPACING_X cfg + 2 * SPACING_X cfg / 3,
                        real ix * SPACING_X cfg + 2 * SPACING_X cfg / 3,
                        real ix * SPACING_X cfg + SPACING_X cfg / 3],
            y_coords = replicate 4 (real iy * SPACING_Y cfg),
            section_name = COUPLING_BEAM_SECTION_NAME cfg,
            base_name_template = ''HCB_X'' @ str_nat ix @ ''_Y'' @ str_nat iy,
            is_coupling_beam = True,
            element_type_prefix = ''S'' \<rparr>,
          \<lparr> x_coords = [real ix * SPACING_X cfg + 2 * SPACING_X cfg / 3,
                        real ix * SPACING_X cfg + SPACING_X cfg,
                        real ix * SPACING_X cfg + SPACING_X cfg,
                        real ix * SPACING_X cfg + 2 * SPACING_X cfg / 3],
            y_coords = replicate 4 (real iy * SPACING_Y cfg),
            section_name = WALL_SECTION_NAME cfg,
            base_name_template = ''HWR_X'' @ str_nat ix @ ''_Y'' @ str_nat iy,
            is_coupling_beam = False,
            element_type_prefix = ''P'' \<rparr>]"
proof -
  have "ix < nat (NUM_GRID_LINES_X cfg)" "ix + 1 < nat (NUM_GRID_LINES_X cfg)"
    using assms(1) by auto
  then show ?thesis
    using assms(2)
    by (simp add: horizontal_elements_def grid_x_nth grid_y_nth Let_def algebra_simps)
qed

lemma vertical_elements_grid:
  assumes "ix < nat (NUM_GRID_LINES_X cfg)" and "iy < nat (NUM_GRID_LINES_Y cfg - 1)"
  shows "vertical_elements cfg (snd (generate_grid_coordinates cfg)) ix
           (fst (generate_grid_coordinates cfg) ! ix) iy =
         [\<lparr> x_coords = replicate 4 (real ix * SPACING_X cfg),
            y_coords = [real iy * SPACING_Y cfg, real iy * SPACING_Y cfg + SPACING_Y cfg / 3,
                        real iy * SPACING_Y cfg + SPACING_Y cfg / 3, real iy * SPACING_Y cfg],
            section_name = WALL_SECTION_NAME cfg,
            base_name_template = ''VWB_X'' @ str_nat ix @ ''_Y'' @ str_nat iy,
            is_coupling_beam = False,
            element_type_prefix = ''P'' \<rparr>,
          \<lparr> x_coords = replicate 4 (real ix * SPACING_X cfg),
            y_coords = [real iy * SPACING_Y cfg + SPACING_Y cfg / 3,
                        real iy * SPACING_Y cfg + 2 * SPACING_Y cfg / 3,
                        real iy * SPACING_Y cfg + 2 * SPACING_Y cfg / 3,
                        real iy * SPACING_Y cfg + SPACING_Y cfg / 3],
            section_name = COUPLING_BEAM_SECTION_NAME cfg,
            base_name_template = ''VCB_X'' @ str_nat ix @ ''_Y'' @ str_nat iy,
            is_coupling_beam = True,
            element_type_prefix = ''S'' \<rparr>,
          \<lparr> x_coords = replicate 4 (real ix * SPACING_X cfg),
            y_coords = [real iy * SPACING_Y cfg + 2 * SPACING_Y cfg / 3,
                        real iy * SPACING_Y cfg + SPACING_Y cfg,
                        real iy * SPACING_Y cfg + SPACING_Y cfg,
                        real iy * SPACING_Y cfg + 2 * SPACING_Y cfg / 3],
            section_name = WALL_SECTION_NAME cfg,
            base_name_template = ''VWT_X'' @ str_nat ix @ ''_Y'' @ str_nat iy,
            is_coupling_beam = False,
            element_type_prefix = ''P'' \<rparr>]"
proof -
  have "iy < nat (NUM_GRID_LINES_Y cfg)" "iy + 1 < nat (NUM_GRID_LINES_Y cfg)"
    using assms(2) by auto
  then show ?thesis
    using assms(1)
    by (simp add: vertical_elements_def grid_x_nth grid_y_nth Let_def algebra_simps)
qed


lemma replicate_3: "replicate 3 x = [x, x, x]"
  by (simp add: numeral_eq_Suc)

lemma replicate_4: "replicate 4 x = [x, x, x, x]"
  by (simp add: numeral_eq_Suc)

subsection \<open>Claim on the layout\<close>

text \<open>
  C6: the layout has three elements for every bay, and no others. For the bay between the
  grid lines \<open>ix\<close> and \<open>ix + 1\<close> in X on the grid line \<open>iy\<close>, with \<open>S\<close> the spacing in X and
  \<open>a = ix * S\<close> the start of the bay, the three elements are consecutive in the list; they
  lie on the line \<open>y = iy * SPACING_Y\<close>; they are a pier, a coupling beam and a pier; and
  their extents in X are \<open>[a, a + S/3]\<close>, \<open>[a + S/3, a + 2*S/3]\<close> and \<open>[a + 2*S/3, a + S]\<close>:
  each has the length \<open>S/3\<close>, each starts where the one before ends, and together they
  cover the bay from \<open>a\<close> to \<open>a + S\<close>. The same holds, with X and Y exchanged, for the bay
  between the grid lines \<open>iy\<close> and \<open>iy + 1\<close> in Y on the grid line \<open>ix\<close>.
\<close>

theorem C6_three_segments_per_bay:
  fixes cfg :: wall_config
  defines "es \<equiv> generate_shear_wall_planar_layout cfg"
    and "nx \<equiv> nat (NUM_GRID_LINES_X cfg)" and "ny \<equiv> nat (NUM_GRID_LINES_Y cfg)"
    and "bays_x \<equiv> nat (NUM_GRID_LINES_X cfg - 1)" and "bays_y \<equiv> nat (NUM_GRID_LINES_Y cfg - 1)"
  shows "length es = 3 * (ny * bays_x + nx * bays_y) \<and>
         (\<forall>ix iy. ix < bays_x \<and> iy < ny \<longrightarrow>
            (let k = 3 * (iy * bays_x + ix); S = SPACING_X cfg; a = real ix * S
             in map x_coords [es ! k, es ! (k + 1), es ! (k + 2)] =
                  [[a, a + S / 3, a + S / 3, a],
                   [a + S / 3, a + 2 * S / 3, a + 2 * S / 3, a + S / 3],
                   [a + 2 * S / 3, a + S, a + S, a + 2 * S / 3]] \<and>
                map y_coords [es ! k, es ! (k + 1), es ! (k + 2)] =
                  replicate 3 (replicate 4 (real iy * SPACING_Y cfg)) \<and>
                map is_coupling_beam [es ! k, es ! (k + 1), es ! (k + 2)] =
                  [False, True, False])) \<and>
         (\<forall>ix iy. ix < nx \<and> iy < bays_y \<longrightarrow>
            (let k = 3 * (ny * bays_x) + 3 * (ix * bays_y + iy); S = SPACING_Y cfg;
                 a = real iy * S
             in map y_coords [es ! k, es ! (k + 1), es ! (k + 2)] =
                  [[a, a + S / 3, a + S / 3, a],
                   [a + S / 3, a + 2 * S / 3, a + 2 * S / 3, a + S / 3],
                   [a + 2 * S / 3, a + S, a + S, a + 2 * S / 3]] \<and>
                map x_coords [es ! k, es ! (k + 1), es ! (k + 2)] =
                  replicate 3 (replicate 4 (real ix * SPACING_X cfg)) \<and>
                map is_coupling_beam [es ! k, es ! (k + 1), es ! (k + 2)] =
                  [False, True, False]))"
proof (intro conjI allI impI)
  show "length es = 3 * (ny * bays_x + nx * bays_y)"
    unfolding es_def nx_def ny_def bays_x_def bays_y_def by (rule layout_length)
next
  fix ix iy
  assume a: "ix < bays_x \<and> iy < ny"
  then have b: "ix < nat (NUM_GRID_LINES_X cfg - 1)" "iy < nat (NUM_GRID_LINES_Y cfg)"
    by (simp_all add: bays_x_def ny_def)
  have e: "es ! (3 * (iy * bays_x + ix) + j)
      = horizontal_elements cfg (fst (generate_grid_coordinates cfg)) iy
             (snd (generate_grid_coordinates cfg) ! iy) ix ! j" if "j < 3" for j
    unfolding es_def bays_x_def using b that by (rule layout_horizontal_nth)
  have e0: "es ! (3 * (iy * bays_x + ix))
      = horizontal_elements cfg (fst (generate_grid_coordinates cfg)) iy
             (snd (generate_grid_coordinates cfg) ! iy) ix ! 0"
    using e [of 0] by simp
  have e1: "es ! (3 * (iy * bays_x + ix) + 1)
      = horizontal_elements cfg (fst (generate_grid_coordinates cfg)) iy
             (snd (generate_grid_coordinates cfg) ! iy) ix ! 1"
    using e [of 1] by simp
  have e2: "es ! (3 * (iy * bays_x + ix) + 2)
      = horizontal_elements cfg (fst (generate_grid_coordinates cfg)) iy
             (snd (generate_grid_coordinates cfg) ! iy) ix ! 2"
    using e [of 2] by simp
  show "let k = 3 * (iy * bays_x + ix); S = SPACING_X cfg; a = real ix * S
        in map x_coords [es ! k, es ! (k + 1), es ! (k + 2)] =
             [[a, a + S / 3, a + S / 3, a],
              [a + S / 3, a + 2 * S / 3, a + 2 * S / 3, a + S / 3],
              [a + 2 * S / 3, a + S, a + S, a + 2 * S / 3]] \<and>
           map y_coords [es ! k, es ! (k + 1), es ! (k + 2)] =
             replicate 3 (replicate 4 (real iy * SPACING_Y cfg)) \<and>
           map is_coupling_beam [es ! k, es ! (k + 1), es ! (k + 2)] =
             [False, True, False]"
    unfolding Let_def e0 e1 e2 horizontal_elements_grid [OF b]
    by (simp add: replicate_3)
next
  fix ix iy
  assume a: "ix < nx \<and> iy < bays_y"
  then have b: "ix < nat (NUM_GRID_LINES_X cfg)" "iy < nat (NUM_GRID_LINES_Y cfg - 1)"
    by (simp_all add: bays_y_def nx_def)
  have e: "es ! (3 * (ny * bays_x) + 3 * (ix * bays_y + iy) + j)
      = vertical_elements cfg (snd (generate_grid_coordinates cfg)) ix
             (fst (generate_grid_coordinates cfg) ! ix) iy ! j" if "j < 3" for j
    unfolding es_def bays_x_def bays_y_def ny_def using b that by (rule layout_vertical_nth)
  have e0: "es ! (3 * (ny * bays_x) + 3 * (ix * bays_y + iy))
      = vertical_elements cfg (snd (generate_grid_coordinates cfg)) ix
             (fst (generate_grid_coordinates cfg) ! ix) iy ! 0"
    using e [of 0] by simp
  have e1: "es ! (3 * (ny * bays_x) + 3 * (ix * bays_y + iy) + 1)
      = vertical_elements cfg (snd (generate_grid_coordinates cfg)) ix
             (fst (generate_grid_coordinates cfg) ! ix) iy ! 1"
    using e [of 1] by simp
  have e2: "es ! (3 * (ny * bays_x) + 3 * (ix * bays_y + iy) + 2)
      = vertical_elements cfg (snd (generate_grid_coordinates cfg)) ix
             (fst (generate_grid_coordinates cfg) ! ix) iy ! 2"
    using e [of 2] by simp
  show "let k = 3 * (ny * bays_x) + 3 * (ix * bays_y + iy); S = SPACING_Y cfg;
            a = real iy * S
        in map y_coords [es ! k, es ! (k + 1), es ! (k + 2)] =
             [[a, a + S / 3, a + S / 3, a],
              [a + S / 3, a + 2 * S / 3, a + 2 * S / 3, a + S / 3],
              [a + 2 * S / 3, a + S, a + S, a + 2 * S / 3]] \<and>
           map x_coords [es ! k, es ! (k + 1), es ! (k + 2)] =
             replicate 3 (replicate 4 (real ix * SPACING_X cfg)) \<and>
           map is_coupling_beam [es ! k, es ! (k + 1), es ! (k + 2)] =
             [False, True, False]"
    unfolding Let_def e0 e1 e2 vertical_elements_grid [OF b]
    by (simp add: replicate_3)
qed

theorem C6_three_segments_per_bay_witness:
  "(1 :: nat) < nat (NUM_GRID_LINES_X config_shear_wall - 1) \<and>
   (2 :: nat) < nat (NUM_GRID_LINES_Y config_shear_wall) \<and>
   (4 :: nat) < nat (NUM_GRID_LINES_X config_shear_wall) \<and>
   (1 :: nat) < nat (NUM_GRID_LINES_Y config_shear_wall - 1) \<and>
   length (generate_shear_wall_planar_layout config_shear_wall) = 66 \<and>
   map x_coords [generate_shear_wall_planar_layout config_shear_wall ! 27,
                 generate_shear_wall_planar_layout config_shear_wall ! 28,
                 generate_shear_wall_planar_layout config_shear_wall ! 29] =
     [[6, 8, 8, 6], [8, 10, 10, 8], [10, 12, 12, 10]] \<and>
   map y_coords [generate_shear_wall_planar_layout config_shear_wall ! 27,
                 generate_shear_wall_planar_layout config_shear_wall ! 28,
                 generate_shear_wall_planar_layout config_shear_wall ! 29] =
     [[12, 12, 12, 12], [12, 12, 12, 12], [12, 12, 12, 12]] \<and>
   map y_coords [generate_shear_wall_planar_layout config_shear_wall ! 63,
                 generate_shear_wall_planar_layout config_shear_wall ! 64,
                 generate_shear_wall_planar_layout config_shear_wall ! 65] =
     [[6, 8, 8, 6], [8, 10, 10, 8], [10, 12, 12, 10]] \<and>
   map x_coords [generate_shear_wall_planar_layout config_shear_wall ! 63,
                 generate_shear_wall_planar_layout config_shear_wall ! 64,
                 generate_shear_wall_planar_layout config_shear_wall ! 65] =
     [[24, 24, 24, 24], [24, 24, 24, 24], [24, 24, 24, 24]]"
proof -
  note t = C6_three_segments_per_bay [of config_shear_wall]
  have len: "length (generate_shear_wall_planar_layout config_shear_wall) = 66"
    using t [THEN conjunct1] by (simp add: config_shear_wall_def)
  have h: "(1 :: nat) < nat (NUM_GRID_LINES_X config_shear_wall - 1) \<and>
           (2 :: nat) < nat (NUM_GRID_LINES_Y config_shear_wall)"
    by (simp add: config_shear_wall_def)
  have v: "(4 :: nat) < nat (NUM_GRID_LINES_X config_shear_wall) \<and>
           (1 :: nat) < nat (NUM_GRID_LINES_Y config_shear_wall - 1)"
    by (simp add: config_shear_wall_def)
  have hor: "map x_coords [generate_shear_wall_planar_layout config_shear_wall ! 27,
                 generate_shear_wall_planar_layout config_shear_wall ! 28,
                 generate_shear_wall_planar_layout config_shear_wall ! 29] =
       [[6, 8, 8, 6], [8, 10, 10, 8], [10, 12, 12, 10]] \<and>
     map y_coords [generate_shear_wall_planar_layout config_shear_wall ! 27,
                 generate_shear_wall_planar_layout config_shear_wall ! 28,
                 generate_shear_wall_planar_layout config_shear_wall ! 29] =
       [[12, 12, 12, 12], [12, 12, 12, 12], [12, 12, 12, 12]]"
    using t [THEN conjunct2, THEN conjunct1, rule_format, OF h]
    by (simp add: config_shear_wall_def Let_def replicate_3 replicate_4)
  have ver: "map y_coords [generate_shear_wall_planar_layout config_shear_wall ! 63,
                 generate_shear_wall_planar_layout config_shear_wall ! 64,
                 generate_shear_wall_planar_layout config_shear_wall ! 65] =
       [[6, 8, 8, 6], [8, 10, 10, 8], [10, 12, 12, 10]] \<and>
     map x_coords [generate_shear_wall_planar_layout config_shear_wall ! 63,
                 generate_shear_wall_planar_layout config_shear_wall ! 64,
                 generate_shear_wall_planar_layout config_shear_wall ! 65] =
       [[24, 24, 24, 24], [24, 24, 24, 24], [24, 24, 24, 24]]"
    using t [THEN conjunct2, THEN conjunct2, rule_format, OF v]
    by (simp add: config_shear_wall_def Let_def replicate_3 replicate_4)
  show ?thesis
    using h v len hor ver by simp
qed

section \<open>The mesh of a panel\<close>

subsection \<open>Grid lines and the cells between them\<close>
















subsection \<open>Claim on the mesh\<close>




end
